theory Spec2Isabelle
  imports Complex_Main
begin

section \<open>Python strings\<close>

text \<open>
  Strings are character lists.  The three string operations the services rely on are
  \<^verbatim>\<open>str.lower()\<close>, the substring test \<^verbatim>\<open>k in s\<close> and \<^verbatim>\<open>str.split()\<close> without
  arguments; \<^verbatim>\<open>str.strip()\<close> is needed by the playlist matcher.  Characters are
  taken to be ASCII: \<open>lower\<close> maps \<open>A\<close>..\<open>Z\<close> to \<open>a\<close>..\<open>z\<close>, and the
  whitespace characters are the ASCII ones for which \<^verbatim>\<open>str.isspace()\<close> holds
  (codes 9 to 13, 28 to 31 and 32).  Python floats are modelled as real numbers.
\<close>

definition lower_char :: "char \<Rightarrow> char" where
  "lower_char c =
     (case map_of (zip ''ABCDEFGHIJKLMNOPQRSTUVWXYZ'' ''abcdefghijklmnopqrstuvwxyz'') c of
        None \<Rightarrow> c
      | Some l \<Rightarrow> l)"

definition lower :: "string \<Rightarrow> string" where
  "lower s = map lower_char s"

definition is_space :: "char \<Rightarrow> bool" where
  "is_space c =
     (let n = (of_char c :: nat) in (9 \<le> n \<and> n \<le> 13) \<or> (28 \<le> n \<and> n \<le> 32))"

fun starts_with :: "string \<Rightarrow> string \<Rightarrow> bool" where
  "starts_with [] s = True"
| "starts_with (k # ks) [] = False"
| "starts_with (k # ks) (c # cs) = (k = c \<and> starts_with ks cs)"

text \<open>\<open>contains k s\<close> is Python's \<^verbatim>\<open>k in s\<close> on strings.\<close>

fun contains :: "string \<Rightarrow> string \<Rightarrow> bool" where
  "contains k [] = (k = [])"
| "contains k (c # cs) = (starts_with k (c # cs) \<or> contains k cs)"

text \<open>
  \<open>py_split s\<close> is \<^verbatim>\<open>s.split()\<close>: the maximal runs of non-whitespace characters,
  in order.  \<open>cur\<close> is the word read so far.
\<close>

fun split_aux :: "string \<Rightarrow> string \<Rightarrow> string list" where
  "split_aux [] cur = (if cur = [] then [] else [cur])"
| "split_aux (c # cs) cur =
     (if is_space c then (if cur = [] then split_aux cs [] else cur # split_aux cs [])
      else split_aux cs (cur @ [c]))"

definition py_split :: "string \<Rightarrow> string list" where
  "py_split s = split_aux s []"

definition strip :: "string \<Rightarrow> string" where
  "strip s = rev (dropWhile is_space (rev (dropWhile is_space s)))"


section \<open>Provider payloads\<close>

text \<open>
  A provider answers with parsed JSON: Python values built from \<^verbatim>\<open>None\<close>, booleans,
  numbers, strings, lists and dictionaries with string keys.  A dictionary is an
  association list in insertion order with distinct keys.
\<close>

datatype json =
    JNull
  | JBool bool
  | JNum real
  | JStr string
  | JList "json list"
  | JDict "(string \<times> json) list"

type_synonym dict = "(string \<times> json) list"

text \<open>The exceptions the modelled code can raise.\<close>

datatype error = AttributeError | TypeError | ValueError | IndexError

text \<open>Sequencing of computations that may raise: the first exception wins.\<close>

fun ebind :: "error + 'a \<Rightarrow> ('a \<Rightarrow> error + 'b) \<Rightarrow> error + 'b" where
  "ebind (Inl e) f = Inl e"
| "ebind (Inr x) f = f x"

text \<open>A \<^verbatim>\<open>for\<close> loop over a list whose body updates a state and may raise.\<close>

fun efold :: "('a \<Rightarrow> 's \<Rightarrow> error + 's) \<Rightarrow> 'a list \<Rightarrow> 's \<Rightarrow> error + 's" where
  "efold f [] s = Inr s"
| "efold f (x # xs) s = ebind (f x s) (efold f xs)"

text \<open>Python truthiness, as tested by \<^verbatim>\<open>if x:\<close>.\<close>

fun truthy :: "json \<Rightarrow> bool" where
  "truthy JNull = False"
| "truthy (JBool b) = b"
| "truthy (JNum r) = (r \<noteq> 0)"
| "truthy (JStr s) = (s \<noteq> [])"
| "truthy (JList xs) = (xs \<noteq> [])"
| "truthy (JDict d) = (d \<noteq> [])"

text \<open>\<^verbatim>\<open>if data:\<close> for an \<^verbatim>\<open>Optional[Dict]\<close>.\<close>

fun truthy_opt :: "dict option \<Rightarrow> bool" where
  "truthy_opt None = False"
| "truthy_opt (Some d) = (d \<noteq> [])"

text \<open>\<^verbatim>\<open>d.get(k, default)\<close> and \<^verbatim>\<open>d.get(k)\<close>.\<close>

definition dict_get :: "dict \<Rightarrow> string \<Rightarrow> json \<Rightarrow> json" where
  "dict_get d k dflt = (case map_of d k of None \<Rightarrow> dflt | Some v \<Rightarrow> v)"

definition dict_get_none :: "dict \<Rightarrow> string \<Rightarrow> json" where
  "dict_get_none d k = dict_get d k JNull"

text \<open>\<^verbatim>\<open>x.get(k, default)\<close> on an arbitrary value: only a dictionary has \<^verbatim>\<open>get\<close>.\<close>

fun py_get :: "json \<Rightarrow> string \<Rightarrow> json \<Rightarrow> error + json" where
  "py_get (JDict d) k dflt = Inr (dict_get d k dflt)"
| "py_get _ k dflt = Inl AttributeError"

text \<open>\<^verbatim>\<open>x.lower()\<close> on an arbitrary value: only a string has \<^verbatim>\<open>lower\<close>.\<close>

fun py_lower :: "json \<Rightarrow> error + string" where
  "py_lower (JStr s) = Inr (lower s)"
| "py_lower _ = Inl AttributeError"


text \<open>
  \<^verbatim>\<open>for x in v\<close> on an arbitrary value: a list yields its elements, a dictionary its keys,
  a string its characters; the other values are not iterable.
\<close>

fun py_iter :: "json \<Rightarrow> error + json list" where
  "py_iter (JList xs) = Inr xs"
| "py_iter (JDict d) = Inr (map (\<lambda>kv. JStr (fst kv)) d)"
| "py_iter (JStr s) = Inr (map (\<lambda>c. JStr [c]) s)"
| "py_iter _ = Inl TypeError"

text \<open>
  A Python \<^verbatim>\<open>set\<close> of payload values, kept as the list of its elements in insertion
  order.  Lists and dictionaries are unhashable; \<^verbatim>\<open>True\<close> and \<^verbatim>\<open>1\<close> are equal.
\<close>

fun num_of :: "json \<Rightarrow> real option" where
  "num_of (JBool b) = Some (if b then 1 else 0)"
| "num_of (JNum r) = Some r"
| "num_of _ = None"

definition py_eq :: "json \<Rightarrow> json \<Rightarrow> bool" where
  "py_eq a b =
     (case (num_of a, num_of b) of
        (Some x, Some y) \<Rightarrow> x = y
      | (None, None) \<Rightarrow> a = b
      | _ \<Rightarrow> False)"

fun set_add :: "json \<Rightarrow> json list \<Rightarrow> error + json list" where
  "set_add (JList xs) s = Inl TypeError"
| "set_add (JDict d) s = Inl TypeError"
| "set_add v s = Inr (if list_ex (py_eq v) s then s else s @ [v])"

text \<open>
  \<^verbatim>\<open>list(s)\<close> for a set \<open>s\<close>: the iteration order of a set follows the hashes of its
  elements, not their insertion.  The order is a parameter: \<open>rank\<close> gives each value
  its place, and values of equal rank keep their insertion order.
\<close>

definition list_of_set :: "('a \<Rightarrow> nat) \<Rightarrow> 'a list \<Rightarrow> 'a list" where
  "list_of_set rank s = sort_key rank s"


section \<open>Data model\<close>

text \<open>
  Modelled from the spec: the module \<^verbatim>\<open>models/track_models.py\<close> (the \<^verbatim>\<open>Genre\<close>
  enumeration with its display values, \<^verbatim>\<open>TrackInfo\<close>, \<^verbatim>\<open>PlaylistInfo\<close>,
  \<^verbatim>\<open>MusicResearchResult\<close> and \<^verbatim>\<open>GenreAnalysis\<close>) is not among the sources.  The
  member names are those the services use; the fields and the display values are those of
  the spec's data model and of the constructor calls and tests in the sources.
\<close>

datatype Genre =
    HOUSE | DEEP_HOUSE | TECHNO | TRANCE | DUBSTEP | DRUM_AND_BASS | BREAKBEAT | AMBIENT
  | DOWNTEMPO | PROGRESSIVE | FUTURE_BASS | TRAP | HIP_HOP | INDUSTRIAL | CHILLOUT
  | ELECTRONIC | EXPERIMENTAL | UNKNOWN

text \<open>Modelled from the spec: \<^verbatim>\<open>Genre.value\<close>, the canonical labels of the enumeration.\<close>

fun genre_value :: "Genre \<Rightarrow> string" where
  "genre_value HOUSE = ''House''"
| "genre_value DEEP_HOUSE = ''Deep House''"
| "genre_value TECHNO = ''Techno''"
| "genre_value TRANCE = ''Trance''"
| "genre_value DUBSTEP = ''Dubstep''"
| "genre_value DRUM_AND_BASS = ''Drum & Bass''"
| "genre_value BREAKBEAT = ''Breakbeat''"
| "genre_value AMBIENT = ''Ambient''"
| "genre_value DOWNTEMPO = ''Downtempo''"
| "genre_value PROGRESSIVE = ''Progressive''"
| "genre_value FUTURE_BASS = ''Future Bass''"
| "genre_value TRAP = ''Trap''"
| "genre_value HIP_HOP = ''Hip Hop''"
| "genre_value INDUSTRIAL = ''Industrial''"
| "genre_value CHILLOUT = ''Chillout''"
| "genre_value ELECTRONIC = ''Electronic''"
| "genre_value EXPERIMENTAL = ''Experimental''"
| "genre_value UNKNOWN = ''Unknown''"

record TrackInfo =
  track_id :: string
  title :: string
  artist :: string
  album :: "string option"
  duration :: "real option"
  file_path :: "string option"
  current_genre :: "string option"
  bpm :: "real option"
  key :: "string option"
  year :: "int option"
  confidence_score :: "real option"
  track_is_remix :: bool

record PlaylistInfo =
  playlist_id :: string
  name :: string
  genre :: string
  track_count :: nat
  description :: "string option"

record MusicResearchResult =
  rr_track_id :: string
  spotify_data :: "dict option"
  lastfm_data :: "dict option"
  musicbrainz_data :: "dict option"
  combined_genres :: "json list option"
  is_remix :: bool
  confidence :: real

text \<open>\<^verbatim>\<open>MusicResearchResult(track_id=...)\<close>: every other field at its default.\<close>

definition new_research_result :: "string \<Rightarrow> MusicResearchResult" where
  "new_research_result tid =
     \<lparr> rr_track_id = tid, spotify_data = None, lastfm_data = None, musicbrainz_data = None,
       combined_genres = None, is_remix = False, confidence = 0 \<rparr>"


section \<open>Evidence collector: \<^verbatim>\<open>MusicResearchService\<close>\<close>

subsection \<open>\<^verbatim>\<open>_calculate_similarity\<close>\<close>

definition calculate_similarity :: "string \<Rightarrow> string \<Rightarrow> real" where
  "calculate_similarity str1 str2 =
     (if str1 = [] \<or> str2 = [] then 0
      else
        let words1 = set (py_split str1);
            words2 = set (py_split str2)
        in if words1 = {} \<or> words2 = {} then 0
           else
             let intersection = words1 \<inter> words2;
                 union = words1 \<union> words2
             in if union \<noteq> {} then real (card intersection) / real (card union) else 0)"

subsection \<open>\<^verbatim>\<open>_calculate_confidence\<close>\<close>

text \<open>
  The source updates a local \<^verbatim>\<open>confidence\<close> step by step; each \<open>let\<close> below is one
  of its statements.
\<close>

definition calculate_confidence :: "MusicResearchResult \<Rightarrow> real" where
  "calculate_confidence result =
     (let confidence = 0;
          sources_found = (0::nat);
          sources_found = (if truthy_opt (lastfm_data result) then sources_found + 1
                           else sources_found);
          sources_found = (if truthy_opt (musicbrainz_data result) then sources_found + 1
                           else sources_found);
          confidence = (if sources_found = 2 then 8 / 10
                        else if sources_found = 1 then 6 / 10 else confidence);
          confidence =
            (case combined_genres result of
               None \<Rightarrow> confidence
             | Some gs \<Rightarrow> if gs \<noteq> [] \<and> length gs > 0 then confidence + 1 / 10 else confidence);
          confidence =
            (case lastfm_data result of
               None \<Rightarrow> confidence
             | Some d \<Rightarrow>
                 if d = [] then confidence
                 else
                   let c = confidence;
                       c = (if truthy (dict_get_none d ''artist_info'') then c + 5 / 100 else c);
                       c = (if truthy (dict_get_none d ''similar_tracks'') then c + 5 / 100 else c);
                       c = (if truthy (dict_get_none d ''playcount'') then c + 5 / 100 else c)
                   in c)
      in min confidence 1)"

text \<open>
  The ladder as the specification words it: a base from the number of providers that
  answered, a bonus for any pooled tag, three bonuses for rich Last.fm data, and a cap.
\<close>

definition lastfm_has :: "MusicResearchResult \<Rightarrow> string \<Rightarrow> bool" where
  "lastfm_has result k =
     (case lastfm_data result of None \<Rightarrow> False | Some d \<Rightarrow> truthy (dict_get_none d k))"

definition spec_source_confidence :: "MusicResearchResult \<Rightarrow> real" where
  "spec_source_confidence result =
     min 1
       ((if truthy_opt (lastfm_data result) \<and> truthy_opt (musicbrainz_data result) then 8 / 10
         else if truthy_opt (lastfm_data result) \<or> truthy_opt (musicbrainz_data result)
         then 6 / 10 else 0)
        + (if combined_genres result \<noteq> None \<and> combined_genres result \<noteq> Some [] then 1 / 10
           else 0)
        + (if lastfm_has result ''artist_info'' then 5 / 100 else 0)
        + (if lastfm_has result ''similar_tracks'' then 5 / 100 else 0)
        + (if lastfm_has result ''playcount'' then 5 / 100 else 0))"


subsection \<open>\<^verbatim>\<open>_detect_remix\<close>\<close>

definition remix_keywords :: "string list" where
  "remix_keywords =
     [''remix'', ''edit'', ''version'', ''mix'', ''rework'', ''reinterpretation'',
      ''bootleg'', ''mashup'', ''flip'', ''flip'', ''refix'', ''vip'', ''dub'',
      ''instrumental'', ''acapella'', ''extended'', ''radio edit'']"

text \<open>\<^verbatim>\<open>for keyword in self.remix_keywords: if keyword in a or keyword in b: return True\<close>\<close>

definition keyword_hit :: "string \<Rightarrow> string \<Rightarrow> bool" where
  "keyword_hit a b = list_ex (\<lambda>keyword. contains keyword a \<or> contains keyword b) remix_keywords"

definition detect_remix :: "TrackInfo \<Rightarrow> dict option \<Rightarrow> dict option \<Rightarrow> error + bool" where
  "detect_remix track lastfm musicbrainz =
     (let title_lower = lower (title track) in
      if list_ex (\<lambda>keyword. contains keyword title_lower) remix_keywords then Inr True
      else
        let artist_lower = lower (artist track) in
        if list_ex (\<lambda>keyword. contains keyword artist_lower) remix_keywords then Inr True
        else
          ebind
            (case lastfm of
               None \<Rightarrow> Inr False
             | Some d \<Rightarrow>
                 if d = [] then Inr False
                 else
                   ebind (py_lower (dict_get d ''name'' (JStr ''''))) (\<lambda>lastfm_title.
                   ebind (py_get (dict_get d ''artist'' (JDict [])) ''name'' (JStr '''')) (\<lambda>a.
                   ebind (py_lower a) (\<lambda>lastfm_artist.
                   Inr (keyword_hit lastfm_title lastfm_artist)))))
            (\<lambda>hit.
               if hit then Inr True
               else
                 (case musicbrainz of
                    None \<Rightarrow> Inr False
                  | Some d \<Rightarrow>
                      if d = [] then Inr False
                      else
                        ebind (py_lower (dict_get d ''title'' (JStr ''''))) (\<lambda>mb_title.
                        ebind (py_lower (dict_get d ''artist-credit-phrase'' (JStr '''')))
                          (\<lambda>mb_artist.
                        Inr (keyword_hit mb_title mb_artist))))))"

subsection \<open>\<^verbatim>\<open>_combine_genres\<close>\<close>

text \<open>
  The source repeats one block four times: a tag field that is a list contributes the
  \<^verbatim>\<open>name\<close> of each dictionary element that has one; a tag field that is itself a
  dictionary with a \<^verbatim>\<open>name\<close> contributes that; anything else contributes nothing.
\<close>

definition add_tag :: "json \<Rightarrow> json list \<Rightarrow> error + json list" where
  "add_tag tag genres =
     (case tag of
        JDict t \<Rightarrow> (case map_of t ''name'' of None \<Rightarrow> Inr genres | Some n \<Rightarrow> set_add n genres)
      | _ \<Rightarrow> Inr genres)"

definition add_tags :: "json \<Rightarrow> json list \<Rightarrow> error + json list" where
  "add_tags tags genres =
     (case tags of
        JList ts \<Rightarrow> efold add_tag ts genres
      | JDict t \<Rightarrow> add_tag (JDict t) genres
      | _ \<Rightarrow> Inr genres)"

text \<open>\<^verbatim>\<open>x.get(outer, {}).get('tag', [])\<close> for a dictionary \<open>x\<close>.\<close>

definition tag_field :: "dict \<Rightarrow> string \<Rightarrow> error + json" where
  "tag_field d outer = py_get (dict_get d outer (JDict [])) ''tag'' (JList [])"

definition pooled_genres :: "dict option \<Rightarrow> dict option \<Rightarrow> error + json list" where
  "pooled_genres lastfm musicbrainz =
     ebind
       (case lastfm of
          None \<Rightarrow> Inr []
        | Some d \<Rightarrow>
            if d = [] then Inr []
            else
              ebind (tag_field d ''toptags'') (\<lambda>lastfm_tags.
              ebind (add_tags lastfm_tags []) (\<lambda>genres.
              ebind
                (let artist_info = dict_get d ''artist_info'' (JDict []) in
                 if truthy artist_info then
                   ebind (py_get artist_info ''tags'' (JDict [])) (\<lambda>tags.
                   ebind (py_get tags ''tag'' (JList [])) (\<lambda>artist_tags.
                   add_tags artist_tags genres))
                 else Inr genres) (\<lambda>genres.
              ebind (py_iter (dict_get d ''similar_tracks'' (JList []))) (\<lambda>similar_tracks.
              efold
                (\<lambda>similar_track genres.
                   ebind (py_get similar_track ''toptags'' (JDict [])) (\<lambda>toptags.
                   ebind (py_get toptags ''tag'' (JList [])) (\<lambda>similar_tags.
                   add_tags similar_tags genres)))
                similar_tracks genres)))))
       (\<lambda>genres.
          case musicbrainz of
            None \<Rightarrow> Inr genres
          | Some d \<Rightarrow>
              if d = [] then Inr genres
              else add_tags (dict_get d ''tag-list'' (JList [])) genres)"

text \<open>
  \<open>pooled_genres\<close> is the set in pooling order; the function returns
  \<^verbatim>\<open>list(genres)\<close>.
\<close>

definition combine_genres ::
  "(json \<Rightarrow> nat) \<Rightarrow> dict option \<Rightarrow> dict option \<Rightarrow> error + json list" where
  "combine_genres rank lastfm musicbrainz =
     ebind (pooled_genres lastfm musicbrainz) (\<lambda>genres. Inr (list_of_set rank genres))"


section \<open>External collaborators\<close>

text \<open>
  The two provider lookups (\<^verbatim>\<open>_search_lastfm\<close>, \<^verbatim>\<open>_search_musicbrainz\<close>: HTTP calls
  wrapped in \<^verbatim>\<open>try/except Exception\<close>, returning a dictionary or \<^verbatim>\<open>None\<close>), the file
  system, the audio feature extractor (which returns an empty dictionary on failure),
  the classifier and the library store's answers are inputs of the pipeline.  \<open>env\<close>
  collects them.  \<open>model\<close> is \<^verbatim>\<open>self.model\<close>: absent, or a fitted classifier.  Its
  class labels are the genre strings of the training samples (\<^verbatim>\<open>train_model\<close> takes
  pairs of a feature dictionary and a \<^verbatim>\<open>str\<close>): \<open>classes\<close> is \<^verbatim>\<open>model.classes_\<close>,
  and \<open>predict\<close> gives for a feature vector the outcome of scaling and predicting:
  \<open>None\<close> when that raises, otherwise the label \<^verbatim>\<open>model.predict(x)[0]\<close> and the
  probabilities \<^verbatim>\<open>model.predict_proba(x)[0]\<close>.  \<open>request_ok\<close> says which requests
  the library store accepts; a rejected request is the \<^verbatim>\<open>None\<close> of
  \<^verbatim>\<open>_make_request\<close>, which catches the request errors, so the store calls themselves
  do not raise.
\<close>

datatype event =
    LastfmLookup string
  | MusicBrainzLookup string
  | PathExists string
  | AudioExtract string
  | UpdateTrackGenre string string
  | GetPlaylistTracks string
  | AddTrackToPlaylist string string
  | Sleep real

type_synonym features = "(string \<times> real) list"

record classifier =
  classes :: "string list"
  predict :: "features \<Rightarrow> (string \<times> real list) option"

record env =
  search_lastfm :: "TrackInfo \<Rightarrow> dict option"
  search_musicbrainz :: "TrackInfo \<Rightarrow> dict option"
  set_rank :: "json \<Rightarrow> nat"
  path_exists :: "string \<Rightarrow> bool"
  extract_audio_features :: "string \<Rightarrow> features"
  is_trained :: bool
  model :: "classifier option"
  request_ok :: "event \<Rightarrow> bool"

text \<open>
  The mutable world: the calls made so far to the collaborators, in order, and the
  library store (each track's genre and each playlist's track ids).
\<close>

record world =
  calls :: "event list"
  store_genre :: "string \<Rightarrow> string option"
  store_members :: "string \<Rightarrow> string list"

definition call :: "event \<Rightarrow> world \<Rightarrow> world" where
  "call ev w = w\<lparr>calls := calls w @ [ev]\<rparr>"

subsection \<open>Library store: \<^verbatim>\<open>LexiconService\<close>\<close>

definition update_track_genre :: "env \<Rightarrow> string \<Rightarrow> string \<Rightarrow> world \<Rightarrow> bool \<times> world" where
  "update_track_genre e tid g w =
     (if request_ok e (UpdateTrackGenre tid g)
      then (True, (call (UpdateTrackGenre tid g) w)\<lparr>store_genre := (store_genre w)(tid \<mapsto> g)\<rparr>)
      else (False, call (UpdateTrackGenre tid g) w))"

definition get_playlist_tracks :: "env \<Rightarrow> string \<Rightarrow> world \<Rightarrow> string list \<times> world" where
  "get_playlist_tracks e pid w =
     (if request_ok e (GetPlaylistTracks pid) then store_members w pid else [],
      call (GetPlaylistTracks pid) w)"

definition add_track_to_playlist :: "env \<Rightarrow> string \<Rightarrow> string \<Rightarrow> world \<Rightarrow> bool \<times> world" where
  "add_track_to_playlist e pid tid w =
     (if request_ok e (AddTrackToPlaylist pid tid)
      then (True, (call (AddTrackToPlaylist pid tid) w)
                    \<lparr>store_members := (store_members w)(pid := store_members w pid @ [tid])\<rparr>)
      else (False, call (AddTrackToPlaylist pid tid) w))"


section \<open>Evidence collector: \<^verbatim>\<open>research_track\<close>\<close>

definition research_track ::
  "env \<Rightarrow> TrackInfo \<Rightarrow> world \<Rightarrow> (error + MusicResearchResult) \<times> world" where
  "research_track e track w =
     (let result = new_research_result (track_id track);
          lastfm = search_lastfm e track;
          w = call (LastfmLookup (track_id track)) w;
          result = (if truthy_opt lastfm then result\<lparr>lastfm_data := lastfm\<rparr> else result);
          musicbrainz = search_musicbrainz e track;
          w = call (MusicBrainzLookup (track_id track)) w;
          result = (if truthy_opt musicbrainz then result\<lparr>musicbrainz_data := musicbrainz\<rparr>
                    else result)
      in (ebind (detect_remix track lastfm musicbrainz) (\<lambda>remix.
          ebind (combine_genres (set_rank e) lastfm musicbrainz) (\<lambda>genres.
          let result = result\<lparr>is_remix := remix\<rparr>;
              result = result\<lparr>combined_genres := Some genres\<rparr>;
              result = result\<lparr>confidence := calculate_confidence result\<rparr>
          in Inr result)),
          w))"


section \<open>Genre fuser: \<^verbatim>\<open>GenreDetectionService\<close>\<close>

record GenreAnalysis =
  ga_track_id :: string
  predicted_genre :: Genre
  ga_confidence :: real
  ga_is_remix :: bool
  analysis_method :: string
  audio_features :: features
  metadata_features :: dict
  playlist_suggestions :: "string list"

definition genre_mapping :: "(string \<times> Genre) list" where
  "genre_mapping =
     [(''house'', HOUSE),
      (''deep house'', DEEP_HOUSE),
      (''progressive house'', PROGRESSIVE),
      (''techno'', TECHNO),
      (''trance'', TRANCE),
      (''progressive trance'', TRANCE),
      (''dubstep'', DUBSTEP),
      (''drum and bass'', DRUM_AND_BASS),
      (''dnb'', DRUM_AND_BASS),
      (''breakbeat'', BREAKBEAT),
      (''ambient'', AMBIENT),
      (''downtempo'', DOWNTEMPO),
      (''future bass'', FUTURE_BASS),
      (''trap'', TRAP),
      (''electronic'', ELECTRONIC),
      (''experimental'', EXPERIMENTAL)]"

text \<open>\<^verbatim>\<open>self.genre_mapping.get(name, Genre.UNKNOWN)\<close>\<close>

definition genre_mapping_get :: "string \<Rightarrow> Genre" where
  "genre_mapping_get k = (case map_of genre_mapping k of None \<Rightarrow> UNKNOWN | Some g \<Rightarrow> g)"

subsection \<open>\<^verbatim>\<open>_predict_from_metadata\<close>\<close>

text \<open>
  \<^verbatim>\<open>genre_counts\<close> is a dictionary, which keeps its keys in insertion order:
  \<^verbatim>\<open>genre_counts[k] = genre_counts.get(k, 0) + 1\<close>.
\<close>

fun dict_incr :: "(string \<times> nat) list \<Rightarrow> string \<Rightarrow> (string \<times> nat) list" where
  "dict_incr [] k = [(k, 1)]"
| "dict_incr ((k', n) # rest) k =
     (if k' = k then (k', n + 1) # rest else (k', n) # dict_incr rest k)"

fun count_genres :: "json list \<Rightarrow> (string \<times> nat) list \<Rightarrow> error + (string \<times> nat) list" where
  "count_genres [] genre_counts = Inr genre_counts"
| "count_genres (g # gs) genre_counts =
     ebind (py_lower g) (\<lambda>genre_lower. count_genres gs (dict_incr genre_counts genre_lower))"

text \<open>
  \<^verbatim>\<open>max(items, key=lambda x: x[1])\<close> keeps the first item whose key is largest: a
  later item replaces the best one only when its key is strictly larger.
\<close>

fun max_item :: "(string \<times> nat) \<Rightarrow> (string \<times> nat) list \<Rightarrow> (string \<times> nat)" where
  "max_item best [] = best"
| "max_item best (x # xs) = max_item (if snd best < snd x then x else best) xs"

definition predict_from_metadata ::
  "TrackInfo \<Rightarrow> MusicResearchResult \<Rightarrow> error + (Genre \<times> real)" where
  "predict_from_metadata track research_result =
     (let genres = (case combined_genres research_result of None \<Rightarrow> [] | Some gs \<Rightarrow> gs);
          conf = 0;
          predicted = UNKNOWN
      in if genres = [] then Inr (predicted, conf)
         else
           ebind (count_genres genres []) (\<lambda>genre_counts.
           let (predicted, conf) =
                 (case genre_counts of
                    [] \<Rightarrow> (predicted, conf)
                  | x # xs \<Rightarrow>
                      let most_common = max_item x xs
                      in (genre_mapping_get (fst most_common),
                          real (snd most_common) / real (length genres)));
               conf = (if is_remix research_result \<and> predicted \<noteq> UNKNOWN
                       then conf * (8 / 10) else conf)
           in Inr (predicted, conf)))"

subsection \<open>\<^verbatim>\<open>_predict_from_audio\<close>\<close>

text \<open>
  \<^verbatim>\<open>arr[idx]\<close> for a NumPy array \<open>arr\<close> and a string \<open>idx\<close>.  NumPy takes integers,
  slices, an ellipsis, \<^verbatim>\<open>newaxis\<close> and integer or boolean arrays as indices; a string
  raises \<^verbatim>\<open>IndexError\<close>.
\<close>

definition np_getitem :: "string list \<Rightarrow> string \<Rightarrow> error + string" where
  "np_getitem arr idx = Inl IndexError"

text \<open>
  The body of the \<^verbatim>\<open>try\<close>: \<^verbatim>\<open>prediction\<close> is the predicted label,
  \<^verbatim>\<open>confidence\<close> the largest class probability (\<^verbatim>\<open>np.max\<close> raises on an empty
  array), \<^verbatim>\<open>genre_names\<close> the array \<^verbatim>\<open>classes_\<close>, and the genre name is
  \<^verbatim>\<open>genre_names[prediction]\<close>.  Every exception is caught and gives
  \<^verbatim>\<open>(Genre.UNKNOWN, 0.0)\<close>.
\<close>

definition predict_from_audio :: "env \<Rightarrow> features \<Rightarrow> Genre \<times> real" where
  "predict_from_audio e feats =
     (if \<not> is_trained e then (UNKNOWN, 0)
      else
        (case model e of
           None \<Rightarrow> (UNKNOWN, 0)
         | Some m \<Rightarrow>
             (case predict m feats of
                None \<Rightarrow> (UNKNOWN, 0)
              | Some (prediction, probabilities) \<Rightarrow>
                  if probabilities = [] then (UNKNOWN, 0)
                  else
                    let conf = Max (set probabilities);
                        genre_names = classes m
                    in case np_getitem genre_names prediction of
                         Inl err \<Rightarrow> (UNKNOWN, 0)
                       | Inr predicted_genre_name \<Rightarrow>
                           (genre_mapping_get (lower predicted_genre_name), conf))))"

subsection \<open>\<^verbatim>\<open>_extract_metadata_features\<close>\<close>

definition num_or_0 :: "real option \<Rightarrow> json" where
  "num_or_0 x = (case x of None \<Rightarrow> JNum 0 | Some r \<Rightarrow> JNum r)"

definition extract_metadata_features ::
  "TrackInfo \<Rightarrow> MusicResearchResult \<Rightarrow> error + dict" where
  "extract_metadata_features track research_result =
     (let feats =
            [(''duration'', num_or_0 (duration track)),
             (''bpm'', num_or_0 (bpm track)),
             (''year'', num_or_0 (map_option real_of_int (year track))),
             (''is_remix'', JNum (if is_remix research_result then 1 else 0)),
             (''title_length'', JNum (real (length (title track)))),
             (''artist_length'', JNum (real (length (artist track)))),
             (''genre_count'',
              JNum (real (length (case combined_genres research_result of
                                    None \<Rightarrow> [] | Some gs \<Rightarrow> gs))))]
      in case spotify_data research_result of
           None \<Rightarrow> Inr feats
         | Some sd \<Rightarrow>
             if sd = [] \<or> \<not> truthy (dict_get_none sd ''features'') then Inr feats
             else
               let sf = dict_get_none sd ''features'' in
               ebind (py_get sf ''danceability'' (JNum 0)) (\<lambda>v1.
               ebind (py_get sf ''energy'' (JNum 0)) (\<lambda>v2.
               ebind (py_get sf ''valence'' (JNum 0)) (\<lambda>v3.
               ebind (py_get sf ''acousticness'' (JNum 0)) (\<lambda>v4.
               ebind (py_get sf ''instrumentalness'' (JNum 0)) (\<lambda>v5.
               ebind (py_get sf ''liveness'' (JNum 0)) (\<lambda>v6.
               ebind (py_get sf ''speechiness'' (JNum 0)) (\<lambda>v7.
               Inr (feats @
                    [(''danceability'', v1), (''energy'', v2), (''valence'', v3),
                     (''acousticness'', v4), (''instrumentalness'', v5),
                     (''liveness'', v6), (''speechiness'', v7)])))))))))"

subsection \<open>\<^verbatim>\<open>_generate_playlist_suggestions\<close>\<close>

fun generate_playlist_suggestions :: "Genre \<Rightarrow> string list" where
  "generate_playlist_suggestions HOUSE = [''House Music'', ''Deep House'', ''House Classics'']"
| "generate_playlist_suggestions DEEP_HOUSE = [''Deep House'', ''House Music'', ''Chill House'']"
| "generate_playlist_suggestions TECHNO = [''Techno'', ''Dark Techno'', ''Industrial Techno'']"
| "generate_playlist_suggestions TRANCE =
     [''Trance'', ''Progressive Trance'', ''Uplifting Trance'']"
| "generate_playlist_suggestions DUBSTEP = [''Dubstep'', ''Bass Music'', ''Electronic'']"
| "generate_playlist_suggestions DRUM_AND_BASS = [''Drum & Bass'', ''DnB'', ''Liquid DnB'']"
| "generate_playlist_suggestions BREAKBEAT = [''Breakbeat'', ''Big Beat'', ''Breaks'']"
| "generate_playlist_suggestions AMBIENT = [''Ambient'', ''Chillout'', ''Relaxing'']"
| "generate_playlist_suggestions DOWNTEMPO = [''Downtempo'', ''Chill'', ''Lounge'']"
| "generate_playlist_suggestions PROGRESSIVE =
     [''Progressive'', ''Progressive House'', ''Progressive Trance'']"
| "generate_playlist_suggestions FUTURE_BASS = [''Future Bass'', ''Bass Music'', ''Electronic'']"
| "generate_playlist_suggestions TRAP = [''Trap'', ''Hip Hop'', ''Bass Music'']"
| "generate_playlist_suggestions ELECTRONIC = [''Electronic'', ''EDM'', ''Electronic Music'']"
| "generate_playlist_suggestions EXPERIMENTAL = [''Experimental'', ''Avant-garde'', ''Abstract'']"
| "generate_playlist_suggestions _ = [''Electronic'', ''Music'']"

subsection \<open>\<^verbatim>\<open>analyze_track\<close>\<close>

text \<open>
  The audio attempt: it runs when the track has a non-empty \<^verbatim>\<open>file_path\<close> that exists.
  Neither \<^verbatim>\<open>_extract_audio_features\<close> nor \<^verbatim>\<open>_predict_from_audio\<close> raises (both catch
  every exception), so the \<^verbatim>\<open>try\<close> around them never fires.  The result is the
  state of the four locals \<^verbatim>\<open>predicted_genre\<close>, \<^verbatim>\<open>confidence\<close>,
  \<^verbatim>\<open>analysis_method\<close>, \<^verbatim>\<open>audio_features\<close> after the attempt.
\<close>

definition audio_attempt ::
  "env \<Rightarrow> TrackInfo \<Rightarrow> world \<Rightarrow> (Genre \<times> real \<times> string \<times> features) \<times> world" where
  "audio_attempt e track w =
     (case file_path track of
        None \<Rightarrow> ((UNKNOWN, 0, ''metadata_only'', []), w)
      | Some p \<Rightarrow>
          if p = [] then ((UNKNOWN, 0, ''metadata_only'', []), w)
          else
            let w = call (PathExists p) w in
            if \<not> path_exists e p then ((UNKNOWN, 0, ''metadata_only'', []), w)
            else
              let feats = extract_audio_features e p;
                  w = call (AudioExtract p) w
              in if is_trained e \<and> feats \<noteq> []
                 then (let (g, c) = predict_from_audio e feats
                       in ((g, c, ''audio_analysis'', feats), w))
                 else ((UNKNOWN, 0, ''metadata_only'', feats), w))"

definition analyze_track ::
  "env \<Rightarrow> TrackInfo \<Rightarrow> MusicResearchResult \<Rightarrow> world \<Rightarrow> (error + GenreAnalysis) \<times> world" where
  "analyze_track e track research_result w =
     (let ((predicted, conf, method, feats), w) = audio_attempt e track w
      in (ebind
            (if predicted = UNKNOWN \<or> conf < 7 / 10
             then ebind (predict_from_metadata track research_result)
                    (\<lambda>(g, c). Inr (g, c, ''metadata_analysis''))
             else Inr (predicted, conf, method))
            (\<lambda>(predicted, conf, method).
             ebind (extract_metadata_features track research_result) (\<lambda>mfeats.
             Inr \<lparr> ga_track_id = track_id track,
                   predicted_genre = predicted,
                   ga_confidence = conf,
                   ga_is_remix = is_remix research_result,
                   analysis_method = method,
                   audio_features = feats,
                   metadata_features = mfeats,
                   playlist_suggestions = generate_playlist_suggestions predicted \<rparr>)),
          w))"


section \<open>Playlist matcher: \<^verbatim>\<open>PlaylistMatchingService\<close>\<close>

definition variations :: "(string \<times> string) list" where
  "variations =
     [(''drum and bass'', ''drum & bass''),
      (''dnb'', ''drum & bass''),
      (''d&b'', ''drum & bass''),
      (''progressive house'', ''progressive''),
      (''progressive trance'', ''progressive''),
      (''deep house'', ''house''),
      (''future bass'', ''bass''),
      (''trap'', ''hip hop'')]"

definition normalize_genre_name :: "string \<Rightarrow> string" where
  "normalize_genre_name genre_name =
     (if genre_name = [] then []
      else
        let normalized = strip (lower genre_name)
        in case map_of variations normalized of None \<Rightarrow> normalized | Some v \<Rightarrow> v)"

fun genre_similarity_matrix :: "Genre \<Rightarrow> Genre list" where
  "genre_similarity_matrix HOUSE = [DEEP_HOUSE, PROGRESSIVE, TECHNO]"
| "genre_similarity_matrix DEEP_HOUSE = [HOUSE, AMBIENT, DOWNTEMPO]"
| "genre_similarity_matrix TECHNO = [HOUSE, INDUSTRIAL, EXPERIMENTAL]"
| "genre_similarity_matrix TRANCE = [PROGRESSIVE, AMBIENT, ELECTRONIC]"
| "genre_similarity_matrix DUBSTEP = [DRUM_AND_BASS, TRAP, FUTURE_BASS]"
| "genre_similarity_matrix DRUM_AND_BASS = [DUBSTEP, BREAKBEAT, TECHNO]"
| "genre_similarity_matrix BREAKBEAT = [DRUM_AND_BASS, TECHNO, EXPERIMENTAL]"
| "genre_similarity_matrix AMBIENT = [DOWNTEMPO, DEEP_HOUSE, EXPERIMENTAL]"
| "genre_similarity_matrix DOWNTEMPO = [AMBIENT, DEEP_HOUSE, CHILLOUT]"
| "genre_similarity_matrix PROGRESSIVE = [TRANCE, HOUSE, ELECTRONIC]"
| "genre_similarity_matrix FUTURE_BASS = [DUBSTEP, TRAP, ELECTRONIC]"
| "genre_similarity_matrix TRAP = [HIP_HOP, DUBSTEP, FUTURE_BASS]"
| "genre_similarity_matrix ELECTRONIC = [TECHNO, TRANCE, PROGRESSIVE]"
| "genre_similarity_matrix EXPERIMENTAL = [AMBIENT, TECHNO, BREAKBEAT]"
| "genre_similarity_matrix _ = []"

text \<open>
  \<^verbatim>\<open>_find_direct_genre_matches\<close>: two independent tests per playlist, each appending the
  playlist's id.
\<close>

fun find_direct_genre_matches :: "Genre \<Rightarrow> PlaylistInfo list \<Rightarrow> string list" where
  "find_direct_genre_matches g [] = []"
| "find_direct_genre_matches g (playlist # playlists) =
     (let playlist_genre = normalize_genre_name (genre playlist);
          predicted_genre_name = normalize_genre_name (genre_value g);
          playlist_name_lower = lower (name playlist)
      in (if playlist_genre = predicted_genre_name then [playlist_id playlist] else [])
         @ (if contains predicted_genre_name playlist_name_lower then [playlist_id playlist]
            else [])
         @ find_direct_genre_matches g playlists)"

text \<open>\<^verbatim>\<open>_find_similar_genre_matches\<close>: the inner loop over the playlists, then the outer one.\<close>

fun similar_genre_hits :: "Genre \<Rightarrow> PlaylistInfo list \<Rightarrow> string list" where
  "similar_genre_hits similar_genre [] = []"
| "similar_genre_hits similar_genre (playlist # playlists) =
     (let playlist_genre = normalize_genre_name (genre playlist);
          similar_genre_name = normalize_genre_name (genre_value similar_genre);
          playlist_name_lower = lower (name playlist)
      in (if playlist_genre = similar_genre_name then [playlist_id playlist] else [])
         @ (if contains similar_genre_name playlist_name_lower then [playlist_id playlist]
            else [])
         @ similar_genre_hits similar_genre playlists)"

definition find_similar_genre_matches :: "Genre \<Rightarrow> PlaylistInfo list \<Rightarrow> string list" where
  "find_similar_genre_matches g playlists =
     concat (map (\<lambda>similar_genre. similar_genre_hits similar_genre playlists)
                 (genre_similarity_matrix g))"

text \<open>
  \<^verbatim>\<open>_find_remix_specific_matches\<close>: the keyword loop of one playlist; it stops
  (\<^verbatim>\<open>break\<close>) at the first keyword in the name for which the genre test holds.
\<close>

fun remix_keyword_scan :: "string list \<Rightarrow> PlaylistInfo \<Rightarrow> Genre \<Rightarrow> bool" where
  "remix_keyword_scan [] playlist g = False"
| "remix_keyword_scan (keyword # keywords) playlist g =
     (let playlist_name_lower = lower (name playlist)
      in if contains keyword playlist_name_lower then
           (let playlist_genre = normalize_genre_name (genre playlist);
                predicted_genre_name = normalize_genre_name (genre_value g)
            in if playlist_genre = predicted_genre_name
                  \<or> contains predicted_genre_name playlist_name_lower
               then True
               else remix_keyword_scan keywords playlist g)
         else remix_keyword_scan keywords playlist g)"

definition find_remix_specific_matches ::
  "TrackInfo \<Rightarrow> GenreAnalysis \<Rightarrow> PlaylistInfo list \<Rightarrow> string list" where
  "find_remix_specific_matches track analysis playlists =
     map playlist_id
       (filter (\<lambda>playlist.
                  remix_keyword_scan [''remix'', ''edit'', ''version'', ''mix'', ''rework'']
                    playlist (predicted_genre analysis))
               playlists)"

text \<open>\<^verbatim>\<open>set(xs)\<close> for a list of strings, in insertion order.\<close>

definition set_of_list :: "string list \<Rightarrow> string list" where
  "set_of_list xs = fold (\<lambda>x s. if x \<in> set s then s else s @ [x]) xs []"

definition match_track_to_playlists ::
  "(json \<Rightarrow> nat) \<Rightarrow> TrackInfo \<Rightarrow> GenreAnalysis \<Rightarrow> PlaylistInfo list \<Rightarrow> string list" where
  "match_track_to_playlists rank track analysis available_playlists =
     (let matched_playlists = find_direct_genre_matches (predicted_genre analysis) available_playlists;
          matched_playlists =
            matched_playlists
            @ find_similar_genre_matches (predicted_genre analysis) available_playlists;
          matched_playlists =
            (if ga_is_remix analysis
             then matched_playlists
                  @ find_remix_specific_matches track analysis available_playlists
             else matched_playlists)
      in list_of_set (\<lambda>pid. rank (JStr pid)) (set_of_list matched_playlists))"


section \<open>Batch orchestrator: \<^verbatim>\<open>MusicOrganizerService\<close>\<close>

record config =
  batch_size :: int
  retry_delay :: real
  confidence_threshold :: real

text \<open>
  The per-track result dictionary.  \<open>r_error\<close> is \<^verbatim>\<open>result['error']\<close>: the caught
  exception, or the message of a rejected genre update.
\<close>

datatype failure = Raised error | UpdateFailed

record TrackResult =
  r_track_id :: string
  r_track_title :: string
  r_track_artist :: string
  success :: bool
  updated :: bool
  playlist_additions :: nat
  skipped :: bool
  r_error :: "failure option"
  analysis :: "GenreAnalysis option"
  matched_playlists :: "string list option"

text \<open>The loop that writes the playlist additions, with the membership re-check.\<close>

fun add_to_playlists ::
  "env \<Rightarrow> string \<Rightarrow> string list \<Rightarrow> nat \<Rightarrow> world \<Rightarrow> nat \<times> world" where
  "add_to_playlists e tid [] additions w = (additions, w)"
| "add_to_playlists e tid (pid # pids) additions w =
     (let (existing_tracks, w) = get_playlist_tracks e pid w
      in if tid \<notin> set existing_tracks then
           (let (ok, w) = add_track_to_playlist e pid tid w
            in add_to_playlists e tid pids (if ok then additions + 1 else additions) w)
         else add_to_playlists e tid pids additions w)"

text \<open>
  \<^verbatim>\<open>if track.current_genre and track.confidence_score and track.confidence_score > 0.8\<close>
\<close>

definition skip_check :: "TrackInfo \<Rightarrow> bool" where
  "skip_check track =
     ((case current_genre track of None \<Rightarrow> False | Some g \<Rightarrow> g \<noteq> [])
      \<and> (case confidence_score track of None \<Rightarrow> False | Some c \<Rightarrow> c \<noteq> 0 \<and> c > 8 / 10))"

definition new_track_result :: "TrackInfo \<Rightarrow> TrackResult" where
  "new_track_result track =
     \<lparr> r_track_id = track_id track, r_track_title = title track,
       r_track_artist = artist track, success = False, updated = False,
       playlist_additions = 0, skipped = False, r_error = None, analysis = None,
       matched_playlists = None \<rparr>"

text \<open>
  \<^verbatim>\<open>_process_single_track\<close>.  An exception raised by the research or the analysis is
  caught by the function's own \<^verbatim>\<open>except Exception\<close>, which records it and returns the
  result as it stands.
\<close>

definition process_single_track ::
  "env \<Rightarrow> config \<Rightarrow> TrackInfo \<Rightarrow> PlaylistInfo list \<Rightarrow> bool \<Rightarrow> world \<Rightarrow> TrackResult \<times> world" where
  "process_single_track e cfg track playlists dry_run w =
     (let result = new_track_result track in
      if skip_check track then (result\<lparr>skipped := True, success := True\<rparr>, w)
      else
        let (researched, w) = research_track e track w in
        case researched of
          Inl err \<Rightarrow> (result\<lparr>r_error := Some (Raised err)\<rparr>, w)
        | Inr research_result \<Rightarrow>
            let (analyzed, w) = analyze_track e track research_result w in
            (case analyzed of
               Inl err \<Rightarrow> (result\<lparr>r_error := Some (Raised err)\<rparr>, w)
             | Inr an \<Rightarrow>
                 let result = result\<lparr>analysis := Some an\<rparr> in
                 if ga_confidence an < confidence_threshold cfg
                 then (result\<lparr>skipped := True, success := True\<rparr>, w)
                 else
                   let (go_on, result, w) =
                         (if \<not> dry_run
                             \<and> Some (genre_value (predicted_genre an)) \<noteq> current_genre track
                          then
                            (let (ok, w) =
                                   update_track_genre e (track_id track)
                                     (genre_value (predicted_genre an)) w
                             in if ok then (True, result\<lparr>updated := True\<rparr>, w)
                                else (False, result\<lparr>r_error := Some UpdateFailed\<rparr>, w))
                          else (True, result, w))
                   in if \<not> go_on then (result, w)
                      else
                        let matched = match_track_to_playlists (set_rank e) track an playlists;
                            (additions, w) =
                              (if \<not> dry_run \<and> matched \<noteq> []
                               then add_to_playlists e (track_id track) matched 0 w
                               else (0, w))
                        in (result\<lparr>playlist_additions := additions,
                                   matched_playlists := Some matched,
                                   success := True\<rparr>, w)))"

record BatchResults =
  processed :: nat
  br_updated :: nat
  br_playlist_additions :: nat
  errors :: nat
  br_skipped :: nat
  details :: "TrackResult list"

definition empty_results :: BatchResults where
  "empty_results =
     \<lparr> processed = 0, br_updated = 0, br_playlist_additions = 0, errors = 0,
       br_skipped = 0, details = [] \<rparr>"

text \<open>
  \<^verbatim>\<open>_process_batch\<close>.  \<^verbatim>\<open>_process_single_track\<close> catches every exception itself, so the
  \<^verbatim>\<open>except\<close> branch of the batch loop is never taken.
\<close>

fun process_batch_loop ::
  "env \<Rightarrow> config \<Rightarrow> TrackInfo list \<Rightarrow> PlaylistInfo list \<Rightarrow> bool \<Rightarrow> BatchResults \<Rightarrow> world
   \<Rightarrow> BatchResults \<times> world" where
  "process_batch_loop e cfg [] playlists dry_run br w = (br, w)"
| "process_batch_loop e cfg (track # tracks) playlists dry_run br w =
     (let (result, w) = process_single_track e cfg track playlists dry_run w;
          br = br\<lparr>processed := processed br + 1\<rparr>;
          br =
            (if success result then
               (let br = (if updated result then br\<lparr>br_updated := br_updated br + 1\<rparr> else br);
                    br = (if playlist_additions result > 0
                          then br\<lparr>br_playlist_additions :=
                                    br_playlist_additions br + playlist_additions result\<rparr>
                          else br);
                    br = (if skipped result then br\<lparr>br_skipped := br_skipped br + 1\<rparr> else br)
                in br)
             else br\<lparr>errors := errors br + 1\<rparr>);
          br = br\<lparr>details := details br @ [result]\<rparr>
      in process_batch_loop e cfg tracks playlists dry_run br w)"

definition process_batch ::
  "env \<Rightarrow> config \<Rightarrow> TrackInfo list \<Rightarrow> PlaylistInfo list \<Rightarrow> bool \<Rightarrow> world
   \<Rightarrow> BatchResults \<times> world" where
  "process_batch e cfg tracks playlists dry_run w =
     process_batch_loop e cfg tracks playlists dry_run empty_results w"

text \<open>The aggregation step of \<^verbatim>\<open>_process_tracks_batch\<close>.\<close>

definition aggregate :: "BatchResults \<Rightarrow> BatchResults \<Rightarrow> BatchResults" where
  "aggregate results batch_results =
     \<lparr> processed = processed results + processed batch_results,
       br_updated = br_updated results + br_updated batch_results,
       br_playlist_additions = br_playlist_additions results + br_playlist_additions batch_results,
       errors = errors results + errors batch_results,
       br_skipped = br_skipped results + br_skipped batch_results,
       details = details results @ details batch_results \<rparr>"

text \<open>
  \<^verbatim>\<open>for i in range(0, len(tracks), self.batch_size)\<close> with a positive step \<open>bs\<close>;
  \<open>i\<close> is the loop index, \<open>tracks[i:i + bs]\<close> the batch.  \<^verbatim>\<open>time.sleep\<close> raises
  \<^verbatim>\<open>ValueError\<close> for a negative delay; nothing in the function catches it, so the loop
  ends there, after the batch just processed.
\<close>

function batch_loop ::
  "env \<Rightarrow> config \<Rightarrow> TrackInfo list \<Rightarrow> PlaylistInfo list \<Rightarrow> bool \<Rightarrow> nat \<Rightarrow> nat
   \<Rightarrow> BatchResults \<Rightarrow> world \<Rightarrow> (error + BatchResults) \<times> world" where
  "batch_loop e cfg tracks playlists dry_run bs i results w =
     (if bs = 0 \<or> length tracks \<le> i then (Inr results, w)
      else
        let batch = take bs (drop i tracks);
            bw = process_batch e cfg batch playlists dry_run w;
            results1 = aggregate results (fst bw)
        in if i + bs < length tracks
           then (if retry_delay cfg < 0 then (Inl ValueError, snd bw)
                 else batch_loop e cfg tracks playlists dry_run bs (i + bs) results1
                        (call (Sleep (retry_delay cfg)) (snd bw)))
           else batch_loop e cfg tracks playlists dry_run bs (i + bs) results1 (snd bw))"
  by pat_completeness auto
termination
  by (relation "measure (\<lambda>(e, cfg, tracks, playlists, dry_run, bs, i, results, w). length tracks - i)")
     auto

text \<open>
  \<^verbatim>\<open>_process_tracks_batch\<close>.  \<^verbatim>\<open>range\<close> raises \<^verbatim>\<open>ValueError\<close> for a step of zero and is
  empty for a negative step.
\<close>

definition process_tracks_batch ::
  "env \<Rightarrow> config \<Rightarrow> TrackInfo list \<Rightarrow> PlaylistInfo list \<Rightarrow> bool \<Rightarrow> world
   \<Rightarrow> (error + BatchResults) \<times> world" where
  "process_tracks_batch e cfg tracks playlists dry_run w =
     (if batch_size cfg = 0 then (Inl ValueError, w)
      else if batch_size cfg < 0 then (Inr empty_results, w)
      else batch_loop e cfg tracks playlists dry_run (nat (batch_size cfg)) 0 empty_results w)"


section \<open>Constructors with defaults, observations and example inputs\<close>

text \<open>
  \<^verbatim>\<open>TrackInfo(id=..., title=..., artist=...)\<close>: the optional fields default to
  \<^verbatim>\<open>None\<close>, the track's own remix flag to \<^verbatim>\<open>False\<close>.
\<close>

definition new_track :: "string \<Rightarrow> string \<Rightarrow> string \<Rightarrow> TrackInfo" where
  "new_track tid ttl art =
     \<lparr> track_id = tid, title = ttl, artist = art, album = None, duration = None,
       file_path = None, current_genre = None, bpm = None, key = None, year = None,
       confidence_score = None, track_is_remix = False \<rparr>"

text \<open>The defaults of \<^verbatim>\<open>MusicOrganizerService.__init__\<close>.\<close>

definition default_config :: config where
  "default_config = \<lparr> batch_size = 50, retry_delay = 1, confidence_threshold = 7 / 10 \<rparr>"

text \<open>
  An environment in which no provider finds anything, no file exists, no classifier is
  trained and the library store accepts every request; sets are iterated in insertion
  order.
\<close>

definition quiet_env :: env where
  "quiet_env =
     \<lparr> search_lastfm = (\<lambda>t. None), search_musicbrainz = (\<lambda>t. None), set_rank = (\<lambda>v. 0),
       path_exists = (\<lambda>p. False), extract_audio_features = (\<lambda>p. []), is_trained = False,
       model = None, request_ok = (\<lambda>ev. True) \<rparr>"

definition empty_world :: world where
  "empty_world = \<lparr> calls = [], store_genre = (\<lambda>t. None), store_members = (\<lambda>p. []) \<rparr>"

text \<open>A provider's tag list: one \<^verbatim>\<open>{"name": n}\<close> object per tag.\<close>

definition tag_list :: "string list \<Rightarrow> json" where
  "tag_list ns = JList (map (\<lambda>n. JDict [(''name'', JStr n)]) ns)"



text \<open>A research result that carries the given tags and remix flag and nothing else.\<close>

definition result_with_tags :: "string list \<Rightarrow> bool \<Rightarrow> MusicResearchResult" where
  "result_with_tags ss remix =
     (new_research_result ''t'')\<lparr>combined_genres := Some (map JStr ss), is_remix := remix\<rparr>"

text \<open>Whether a tag, once lowercased, is a key of the genre mapping.\<close>

definition mapped_tag :: "string \<Rightarrow> bool" where
  "mapped_tag s = (lower s \<in> fst ` set genre_mapping)"

text \<open>
  A Last.fm answer with the two track tags \<^verbatim>\<open>house\<close> and \<^verbatim>\<open>techno\<close>, in that order,
  and a set order that puts \<^verbatim>\<open>techno\<close> first.
\<close>

definition two_tag_payload :: dict where
  "two_tag_payload =
     [(''name'', JStr ''Song''),
      (''artist'', JDict [(''name'', JStr ''Artist'')]),
      (''toptags'', JDict [(''tag'', tag_list [''house'', ''techno''])])]"

definition techno_first :: "json \<Rightarrow> nat" where
  "techno_first v = (if v = JStr ''techno'' then 0 else 1)"

text \<open>The fused (genre, confidence) pair recorded in a per-track result.\<close>

definition fused :: "TrackResult \<Rightarrow> (Genre \<times> real) option" where
  "fused result = map_option (\<lambda>a. (predicted_genre a, ga_confidence a)) (analysis result)"

text \<open>A Last.fm answer whose \<^verbatim>\<open>artist\<close> field is a string, not an object.\<close>

definition artist_string_payload :: dict where
  "artist_string_payload = [(''name'', JStr ''Song''), (''artist'', JStr ''Artist'')]"

text \<open>A Last.fm answer whose \<^verbatim>\<open>toptags\<close> field is a blank string, not an object.\<close>

definition blank_toptags_payload :: dict where
  "blank_toptags_payload =
     [(''name'', JStr ''Song''),
      (''artist'', JDict [(''name'', JStr ''Artist'')]),
      (''toptags'', JStr '' '')]"

text \<open>
  An environment with a trained classifier over the classes \<^verbatim>\<open>house\<close> and \<^verbatim>\<open>techno\<close>
  that labels every feature vector \<^verbatim>\<open>house\<close> with probability 0.9, and a track that has
  an audio file.
\<close>

definition audio_env :: env where
  "audio_env =
     quiet_env\<lparr> path_exists := (\<lambda>p. True),
                extract_audio_features := (\<lambda>p. [(''tempo'', 128)]),
                is_trained := True,
                model := Some \<lparr> classes = [''house'', ''techno''],
                                predict = (\<lambda>feats. Some (''house'', [9 / 10, 1 / 10])) \<rparr> \<rparr>"

definition audio_track :: TrackInfo where
  "audio_track = (new_track ''a'' ''Song'' ''Artist'')\<lparr>file_path := Some ''/music/song.mp3''\<rparr>"

text \<open>What an analysis reports: genre, confidence, remix flag and method.\<close>

definition outcome ::
  "(error + GenreAnalysis) \<times> world \<Rightarrow> (Genre \<times> real \<times> bool \<times> string) option" where
  "outcome x =
     (case fst x of
        Inl err \<Rightarrow> None
      | Inr a \<Rightarrow> Some (predicted_genre a, ga_confidence a, ga_is_remix a, analysis_method a))"

text \<open>
  The end-to-end scenario: the track \<^verbatim>\<open>Strobe (Extended Mix)\<close> by \<^verbatim>\<open>Deadmau5\<close>, no
  genre, no audio file, and two providers that both answer with the single tag
  \<^verbatim>\<open>progressive house\<close>.
\<close>

definition strobe_track :: TrackInfo where
  "strobe_track = new_track ''strobe'' ''Strobe (Extended Mix)'' ''Deadmau5''"

definition strobe_lastfm :: dict where
  "strobe_lastfm =
     [(''name'', JStr ''Strobe''),
      (''artist'', JDict [(''name'', JStr ''deadmau5'')]),
      (''toptags'', JDict [(''tag'', tag_list [''progressive house''])])]"

definition strobe_musicbrainz :: dict where
  "strobe_musicbrainz =
     [(''title'', JStr ''Strobe''),
      (''artist-credit-phrase'', JStr ''deadmau5''),
      (''tag-list'', tag_list [''progressive house''])]"

definition strobe_env :: env where
  "strobe_env =
     quiet_env\<lparr> search_lastfm := (\<lambda>t. Some strobe_lastfm),
                search_musicbrainz := (\<lambda>t. Some strobe_musicbrainz) \<rparr>"

text \<open>The keywords of the remix pass of the playlist matcher.\<close>

definition playlist_remix_keywords :: "string list" where
  "playlist_remix_keywords = [''remix'', ''edit'', ''version'', ''mix'', ''rework'']"

text \<open>A track that already has a genre with a recorded confidence of 0.9.\<close>

definition settled_track :: TrackInfo where
  "settled_track =
     (new_track ''s'' ''Song'' ''Artist'')
       \<lparr>current_genre := Some ''House'', confidence_score := Some (9 / 10)\<rparr>"

text \<open>
  What the scenario is expected to produce: the evidence bundle of the research and the
  analysis of the fuser.
\<close>

definition strobe_research :: MusicResearchResult where
  "strobe_research =
     \<lparr> rr_track_id = ''strobe'', spotify_data = None, lastfm_data = Some strobe_lastfm,
       musicbrainz_data = Some strobe_musicbrainz,
       combined_genres = Some [JStr ''progressive house''], is_remix = True,
       confidence = 9 / 10 \<rparr>"

definition strobe_analysis :: GenreAnalysis where
  "strobe_analysis =
     \<lparr> ga_track_id = ''strobe'', predicted_genre = PROGRESSIVE, ga_confidence = 4 / 5,
       ga_is_remix = True, analysis_method = ''metadata_analysis'', audio_features = [],
       metadata_features =
         [(''duration'', JNum 0), (''bpm'', JNum 0), (''year'', JNum 0), (''is_remix'', JNum 1),
          (''title_length'', JNum 21), (''artist_length'', JNum 8), (''genre_count'', JNum 1)],
       playlist_suggestions = [''Progressive'', ''Progressive House'', ''Progressive Trance''] \<rparr>"

text \<open>Three playlists: one named after the genre, one of another genre, one for remixes.\<close>

definition example_playlists :: "PlaylistInfo list" where
  "example_playlists =
     [\<lparr> playlist_id = ''p1'', name = ''Progressive House'', genre = '''', track_count = 0,
        description = None \<rparr>,
      \<lparr> playlist_id = ''p2'', name = ''Hard Techno'', genre = ''techno'', track_count = 0,
        description = None \<rparr>,
      \<lparr> playlist_id = ''p3'', name = ''Club Remixes'', genre = ''Progressive'', track_count = 0,
        description = None \<rparr>]"


section \<open>Properties of the evidence collector\<close>

subsection \<open>The source-confidence ladder\<close>

text \<open>
  Claim C6.  For every research result, \<^verbatim>\<open>_calculate_confidence\<close> is the ladder of the
  specification: 0.8 when both providers answered, 0.6 when exactly one did, 0 when
  neither did; plus 0.1 when a pooled tag exists; plus 0.05 each for artist data, similar
  tracks and a play count in the Last.fm answer; capped at 1.  The value lies in [0,1].
\<close>

theorem calculate_confidence_ladder:
  "calculate_confidence r = spec_source_confidence r
   \<and> 0 \<le> calculate_confidence r \<and> calculate_confidence r \<le> 1"
  unfolding calculate_confidence_def spec_source_confidence_def lastfm_has_def Let_def
  by (cases "lastfm_data r"; cases "musicbrainz_data r"; cases "combined_genres r")
     (auto simp: min_def dict_get_none_def dict_get_def)

subsection \<open>Word-set similarity\<close>

lemma words_nonempty_string: "py_split a \<noteq> [] \<Longrightarrow> a \<noteq> []"
  by (auto simp: py_split_def)

lemma similarity_words:
  assumes "py_split a \<noteq> []" "py_split b \<noteq> []"
  shows "calculate_similarity a b =
           real (card (set (py_split a) \<inter> set (py_split b)))
           / real (card (set (py_split a) \<union> set (py_split b)))"
  using assms words_nonempty_string[of a] words_nonempty_string[of b]
  by (simp add: calculate_similarity_def Let_def)

lemma similarity_no_words:
  "py_split a = [] \<or> py_split b = [] \<Longrightarrow> calculate_similarity a b = 0"
  by (auto simp: calculate_similarity_def Let_def)

lemma similarity_sym: "calculate_similarity a b = calculate_similarity b a"
  by (auto simp: calculate_similarity_def Let_def Int_commute Un_commute)

lemma similarity_refl: "py_split a \<noteq> [] \<Longrightarrow> calculate_similarity a a = 1"
proof -
  assume h: "py_split a \<noteq> []"
  then have "card (set (py_split a)) > 0"
    by (simp add: card_gt_0_iff)
  with h show ?thesis
    by (simp add: similarity_words)
qed

lemma similarity_disjoint:
  "set (py_split a) \<inter> set (py_split b) = {} \<Longrightarrow> calculate_similarity a b = 0"
  by (cases "py_split a = [] \<or> py_split b = []")
     (auto simp: similarity_no_words similarity_words)

lemma similarity_bounds: "0 \<le> calculate_similarity a b \<and> calculate_similarity a b \<le> 1"
proof (cases "py_split a = [] \<or> py_split b = []")
  case True
  then show ?thesis by (simp add: similarity_no_words)
next
  case False
  let ?I = "set (py_split a) \<inter> set (py_split b)"
  let ?U = "set (py_split a) \<union> set (py_split b)"
  have "card ?I \<le> card ?U"
    by (rule card_mono) auto
  moreover have "0 < card ?U"
    using False by (simp add: card_gt_0_iff)
  ultimately show ?thesis
    using False by (simp add: similarity_words)
qed

lemma similarity_partial:
  assumes "set (py_split a) \<inter> set (py_split b) \<noteq> {}"
    and "set (py_split a) \<noteq> set (py_split b)"
  shows "0 < calculate_similarity a b \<and> calculate_similarity a b < 1"
proof -
  let ?I = "set (py_split a) \<inter> set (py_split b)"
  let ?U = "set (py_split a) \<union> set (py_split b)"
  from assms(1) have ne: "py_split a \<noteq> []" "py_split b \<noteq> []"
    by auto
  have "?I \<subset> ?U"
    using assms(2) by auto
  then have lt: "card ?I < card ?U"
    by (intro psubset_card_mono) auto
  have pos: "0 < card ?I"
    using assms(1) by (simp add: card_gt_0_iff)
  from lt pos ne show ?thesis
    by (simp add: similarity_words)
qed

text \<open>
  Claim C7, as the code has it.  \<^verbatim>\<open>_calculate_similarity\<close> is symmetric; it is 1 on
  \<open>(a, a)\<close> for every \<open>a\<close> that holds at least one word; it is 0 when the two word
  sets are disjoint; it lies strictly between 0 and 1 when the word sets overlap without
  being equal; and it always lies in [0,1].
\<close>

theorem calculate_similarity_properties:
  "calculate_similarity a b = calculate_similarity b a
   \<and> (py_split a \<noteq> [] \<longrightarrow> calculate_similarity a a = 1)
   \<and> (set (py_split a) \<inter> set (py_split b) = {} \<longrightarrow> calculate_similarity a b = 0)
   \<and> (set (py_split a) \<inter> set (py_split b) \<noteq> {} \<and> set (py_split a) \<noteq> set (py_split b)
        \<longrightarrow> 0 < calculate_similarity a b \<and> calculate_similarity a b < 1)
   \<and> 0 \<le> calculate_similarity a b \<and> calculate_similarity a b \<le> 1"
  using similarity_sym[of a b] similarity_refl[of a] similarity_disjoint[of a b]
    similarity_partial[of a b] similarity_bounds[of a b]
  by blast

text \<open>
  The theorem at \<^verbatim>\<open>"hello world"\<close> against itself and against \<^verbatim>\<open>"hello there"\<close>
  (one shared word of three: a third), and at \<^verbatim>\<open>"hello"\<close> against \<^verbatim>\<open>"world"\<close>.
\<close>

theorem calculate_similarity_properties_witness:
  "py_split ''hello world'' \<noteq> []
   \<and> calculate_similarity ''hello world'' ''hello world'' = 1
   \<and> set (py_split ''hello world'') \<inter> set (py_split ''hello there'') \<noteq> {}
   \<and> set (py_split ''hello world'') \<noteq> set (py_split ''hello there'')
   \<and> 0 < calculate_similarity ''hello world'' ''hello there''
   \<and> calculate_similarity ''hello world'' ''hello there'' < 1
   \<and> calculate_similarity ''hello world'' ''hello there'' = 1 / 3
   \<and> set (py_split ''hello'') \<inter> set (py_split ''world'') = {}
   \<and> calculate_similarity ''hello'' ''world'' = 0"
  using calculate_similarity_properties[of "''hello world''" "''hello there''"]
    calculate_similarity_properties[of "''hello''" "''world''"]
  by (simp add: calculate_similarity_def py_split_def is_space_def card_insert_if
      doubleton_eq_iff)

text \<open>
  Claim C7, as the specification words it, fails on a non-empty string without a word:
  a single blank is compared with itself and scores 0, not 1.
\<close>

theorem calculate_similarity_blank_counterexample:
  "'' '' \<noteq> [] \<and> calculate_similarity '' '' '' '' = 0 \<and> calculate_similarity '' '' '' '' \<noteq> 1"
  by (simp add: calculate_similarity_def py_split_def is_space_def)


section \<open>Properties of the genre fuser\<close>

subsection \<open>The tag vote\<close>

lemma count_genres_strings:
  "count_genres (map JStr ss) acc = Inr (foldl dict_incr acc (map lower ss))"
  by (induction ss arbitrary: acc) auto

lemma keys_dict_incr:
  "map fst (dict_incr cs x) = (if x \<in> set (map fst cs) then map fst cs else map fst cs @ [x])"
  by (induction cs x rule: dict_incr.induct) auto

lemma map_of_dict_incr:
  "map_of (dict_incr cs x) =
     (map_of cs)(x \<mapsto> (case map_of cs x of None \<Rightarrow> 1 | Some n \<Rightarrow> n + 1))"
  by (induction cs x rule: dict_incr.induct) (auto simp: fun_eq_iff)

lemma keys_counts: "set (map fst (foldl dict_incr [] ls)) = set ls"
  by (induction ls rule: rev_induct) (auto simp: keys_dict_incr)

lemma distinct_counts: "distinct (map fst (foldl dict_incr [] ls))"
  by (induction ls rule: rev_induct) (auto simp: keys_dict_incr)

lemma map_of_counts:
  "map_of (foldl dict_incr [] ls) k = (if k \<in> set ls then Some (count_list ls k) else None)"
proof (induction ls rule: rev_induct)
  case Nil
  then show ?case by simp
next
  case (snoc x xs)
  then show ?case
    by (auto simp: map_of_dict_incr)
qed

lemma counts_entry:
  assumes "(k, n) \<in> set (foldl dict_incr [] ls)"
  shows "k \<in> set ls \<and> n = count_list ls k"
proof -
  from assms have "map_of (foldl dict_incr [] ls) k = Some n"
    by (simp add: distinct_counts)
  then show ?thesis
    by (auto simp: map_of_counts split: if_splits)
qed

lemma keys_first_seen:
  "map fst (foldl dict_incr [] ls) = pre @ k # post
   \<Longrightarrow> \<exists>i < length ls. ls ! i = k \<and> set (take i ls) \<subseteq> set pre"
proof (induction ls arbitrary: pre post rule: rev_induct)
  case Nil
  then show ?case by simp
next
  case (snoc x xs)
  let ?ks = "map fst (foldl dict_incr [] xs)"
  show ?case
  proof (cases "x \<in> set xs")
    case True
    with snoc.prems have "?ks = pre @ k # post"
      by (simp add: keys_dict_incr keys_counts[simplified])
    from snoc.IH[OF this] obtain i where "i < length xs" "xs ! i = k" "set (take i xs) \<subseteq> set pre"
      by blast
    then show ?thesis
      by (intro exI[of _ i]) (auto simp: nth_append)
  next
    case False
    with snoc.prems have eq: "?ks @ [x] = pre @ k # post"
      by (simp add: keys_dict_incr keys_counts[simplified])
    show ?thesis
    proof (cases post rule: rev_cases)
      case Nil
      with eq have "?ks = pre" "k = x" by auto
      then have "set xs \<subseteq> set pre"
        using keys_counts[of xs] by simp
      with \<open>k = x\<close> show ?thesis
        by (intro exI[of _ "length xs"]) auto
    next
      case (snoc post' y)
      with eq have "?ks = pre @ k # post'" by auto
      from snoc.IH[OF this] obtain i where "i < length xs" "xs ! i = k" "set (take i xs) \<subseteq> set pre"
        by blast
      then show ?thesis
        by (intro exI[of _ i]) (auto simp: nth_append)
    qed
  qed
qed

lemma max_item_ge: "snd best \<le> snd (max_item best xs)"
proof (induction xs arbitrary: best)
  case Nil
  then show ?case by simp
next
  case (Cons x xs)
  show ?case
    using Cons.IH[of x] Cons.IH[of best] by (auto split: if_splits)
qed

lemma max_item_first:
  "\<exists>pre post. best # xs = pre @ max_item best xs # post
     \<and> (\<forall>y \<in> set pre. snd y < snd (max_item best xs))
     \<and> (\<forall>y \<in> set post. snd y \<le> snd (max_item best xs))"
proof (induction xs arbitrary: best)
  case Nil
  show ?case
    by (intro exI[of _ "[]"]) simp
next
  case (Cons x xs)
  show ?case
  proof (cases "snd best < snd x")
    case True
    define m where "m = max_item x xs"
    have me: "max_item best (x # xs) = m"
      using True by (simp add: m_def)
    from Cons.IH[of x] obtain pre post where
      h: "x # xs = pre @ m # post"
         "\<forall>y \<in> set pre. snd y < snd m"
         "\<forall>y \<in> set post. snd y \<le> snd m"
      unfolding m_def by blast
    have "snd best < snd m"
      using True max_item_ge[of x xs] unfolding m_def by linarith
    with h have "best # x # xs = (best # pre) @ m # post
        \<and> (\<forall>y \<in> set (best # pre). snd y < snd m) \<and> (\<forall>y \<in> set post. snd y \<le> snd m)"
      by simp
    then show ?thesis
      unfolding me by blast
  next
    case False
    define m where "m = max_item best xs"
    have me: "max_item best (x # xs) = m"
      using False by (simp add: m_def)
    from Cons.IH[of best] obtain pre post where
      h: "best # xs = pre @ m # post"
         "\<forall>y \<in> set pre. snd y < snd m"
         "\<forall>y \<in> set post. snd y \<le> snd m"
      unfolding m_def by blast
    have ge: "snd best \<le> snd m"
      using max_item_ge[of best xs] unfolding m_def .
    show ?thesis
    proof (cases pre)
      case Nil
      with h have "m = best" "xs = post" by auto
      with h False have "best # x # xs = [] @ m # (x # xs)
          \<and> (\<forall>y \<in> set []. snd y < snd m) \<and> (\<forall>y \<in> set (x # xs). snd y \<le> snd m)"
        by auto
      then show ?thesis
        unfolding me by blast
    next
      case (Cons b pre')
      with h have b: "b = best" "snd best < snd m" "xs = pre' @ m # post"
        by auto
      with h False Cons have "best # x # xs = (best # x # pre') @ m # post
          \<and> (\<forall>y \<in> set (best # x # pre'). snd y < snd m) \<and> (\<forall>y \<in> set post. snd y \<le> snd m)"
        by auto
      then show ?thesis
        unfolding me by blast
    qed
  qed
qed

lemma counts_nonempty: "ls \<noteq> [] \<Longrightarrow> foldl dict_incr [] ls \<noteq> []"
  using keys_counts[of ls] by auto

lemma vote_winner:
  assumes "ls \<noteq> []" and "foldl dict_incr [] ls = x # xs"
  shows "\<exists>i < length ls.
           max_item x xs = (ls ! i, count_list ls (ls ! i))
           \<and> (\<forall>k \<in> set ls. count_list ls k \<le> count_list ls (ls ! i))
           \<and> (\<forall>j < i. count_list ls (ls ! j) < count_list ls (ls ! i))"
proof -
  let ?cs = "foldl dict_incr [] ls"
  obtain w c where m: "max_item x xs = (w, c)"
    by (cases "max_item x xs")
  from max_item_first[of x xs] m assms(2) obtain pre post where
    sp: "?cs = pre @ (w, c) # post"
    and lt: "\<forall>y \<in> set pre. snd y < c"
    and le: "\<forall>y \<in> set post. snd y \<le> c"
    by auto
  from sp have "(w, c) \<in> set ?cs" by simp
  then have wc: "w \<in> set ls" "c = count_list ls w"
    using counts_entry by blast+
  from sp have "map fst ?cs = map fst pre @ w # map fst post" by simp
  from keys_first_seen[OF this] obtain i where
    i: "i < length ls" "ls ! i = w" "set (take i ls) \<subseteq> set (map fst pre)"
    by blast
  have all_le: "count_list ls k \<le> c" if "k \<in> set ls" for k
  proof -
    from that have "map_of ?cs k = Some (count_list ls k)"
      by (simp add: map_of_counts)
    then have "(k, count_list ls k) \<in> set ?cs"
      by (rule map_of_SomeD)
    with sp lt le show ?thesis
      by (auto dest: bspec)
  qed
  have before: "count_list ls (ls ! j) < c" if "j < i" for j
  proof -
    from that i(1) have "ls ! j \<in> set (take i ls)"
      by (auto simp: in_set_conv_nth intro!: exI[of _ j])
    with i(3) obtain n where n: "(ls ! j, n) \<in> set pre"
      by auto
    with sp have "(ls ! j, n) \<in> set ?cs" by simp
    then have "n = count_list ls (ls ! j)"
      using counts_entry by blast
    with n lt show ?thesis
      by (auto dest: bspec)
  qed
  from m wc i all_le before show ?thesis
    by (intro exI[of _ i]) auto
qed

lemma predict_from_metadata_strings:
  assumes "combined_genres r = Some (map JStr ss)" and "ss \<noteq> []"
    and "foldl dict_incr [] (map lower ss) = x # xs"
  shows "predict_from_metadata t r =
           Inr (genre_mapping_get (fst (max_item x xs)),
                real (snd (max_item x xs)) / real (length ss)
                * (if is_remix r \<and> genre_mapping_get (fst (max_item x xs)) \<noteq> UNKNOWN
                   then 8 / 10 else 1))"
  using assms by (simp add: predict_from_metadata_def count_genres_strings Let_def)

lemma predict_from_metadata_vote:
  assumes "combined_genres r = Some (map JStr ss)" and "ss \<noteq> []"
  shows "\<exists>i < length ss.
           (\<forall>k \<in> set (map lower ss).
              count_list (map lower ss) k \<le> count_list (map lower ss) (lower (ss ! i)))
           \<and> (\<forall>j < i. count_list (map lower ss) (lower (ss ! j))
                       < count_list (map lower ss) (lower (ss ! i)))
           \<and> predict_from_metadata t r =
               Inr (genre_mapping_get (lower (ss ! i)),
                    real (count_list (map lower ss) (lower (ss ! i))) / real (length ss)
                    * (if is_remix r \<and> genre_mapping_get (lower (ss ! i)) \<noteq> UNKNOWN
                       then 8 / 10 else 1))"
proof -
  let ?ls = "map lower ss"
  from assms(2) have ne: "?ls \<noteq> []" by simp
  then obtain x xs where cs: "foldl dict_incr [] ?ls = x # xs"
    using counts_nonempty[OF ne] by (cases "foldl dict_incr [] ?ls") auto
  from vote_winner[OF ne cs] obtain i where
    i: "i < length ?ls" "max_item x xs = (?ls ! i, count_list ?ls (?ls ! i))"
       "\<forall>k \<in> set ?ls. count_list ?ls k \<le> count_list ?ls (?ls ! i)"
       "\<forall>j < i. count_list ?ls (?ls ! j) < count_list ?ls (?ls ! i)"
    by blast
  from i(1) have nth: "?ls ! i = lower (ss ! i)" by simp
  have nthj: "?ls ! j = lower (ss ! j)" if "j < i" for j
    using that i(1) by simp
  show ?thesis
  proof (intro exI[of _ i] conjI)
    show "i < length ss" using i(1) by simp
    show "\<forall>k \<in> set ?ls. count_list ?ls k \<le> count_list ?ls (lower (ss ! i))"
      using i(3) nth by simp
    show "\<forall>j < i. count_list ?ls (lower (ss ! j)) < count_list ?ls (lower (ss ! i))"
      using i(4) nth nthj by simp
    show "predict_from_metadata t r =
               Inr (genre_mapping_get (lower (ss ! i)),
                    real (count_list ?ls (lower (ss ! i))) / real (length ss)
                    * (if is_remix r \<and> genre_mapping_get (lower (ss ! i)) \<noteq> UNKNOWN
                       then 8 / 10 else 1))"
      using predict_from_metadata_strings[OF assms cs, of t] i(2) nth by simp
  qed
qed

lemma genre_mapping_get_unknown:
  "genre_mapping_get k = UNKNOWN \<longleftrightarrow> k \<notin> fst ` set genre_mapping"
  by (simp add: genre_mapping_get_def genre_mapping_def)

text \<open>
  Claim C1, as the code has it.  For a research result whose pooled tags are the strings
  \<open>ss\<close> (not empty), every tag takes part in the vote, whether the genre mapping knows
  it or not: the winner \<open>w\<close> is a lowercased tag whose count is largest among all of
  them; the predicted genre is the mapping's value for \<open>w\<close>, which is \<open>UNKNOWN\<close>
  exactly when \<open>w\<close> is not a key of the mapping; and the confidence is the winner's count
  over the number of all tags, times 0.8 for a remix with a mapped winner.
\<close>

theorem predict_from_metadata_votes_over_all_tags:
  assumes "combined_genres r = Some (map JStr ss)" and "ss \<noteq> []"
  shows "\<exists>w \<in> set (map lower ss).
           (\<forall>k \<in> set (map lower ss). count_list (map lower ss) k \<le> count_list (map lower ss) w)
           \<and> (genre_mapping_get w = UNKNOWN \<longleftrightarrow> w \<notin> fst ` set genre_mapping)
           \<and> predict_from_metadata t r =
               Inr (genre_mapping_get w,
                    real (count_list (map lower ss) w) / real (length ss)
                    * (if is_remix r \<and> w \<in> fst ` set genre_mapping then 8 / 10 else 1))"
proof -
  from predict_from_metadata_vote[OF assms, of t] obtain i where
    i: "i < length ss"
       "\<forall>k \<in> set (map lower ss).
          count_list (map lower ss) k \<le> count_list (map lower ss) (lower (ss ! i))"
       "predict_from_metadata t r =
               Inr (genre_mapping_get (lower (ss ! i)),
                    real (count_list (map lower ss) (lower (ss ! i))) / real (length ss)
                    * (if is_remix r \<and> genre_mapping_get (lower (ss ! i)) \<noteq> UNKNOWN
                       then 8 / 10 else 1))"
    by blast
  from i(1) have "lower (ss ! i) \<in> set (map lower ss)" by simp
  with i(2,3) show ?thesis
    by (intro bexI[of _ "lower (ss ! i)"]) (simp_all add: genre_mapping_get_unknown)
qed

text \<open>
  The theorem at the tags \<^verbatim>\<open>house\<close>, \<^verbatim>\<open>House\<close>, \<^verbatim>\<open>rock\<close> of a remix: \<^verbatim>\<open>house\<close>
  wins with two votes of three, the unmapped \<^verbatim>\<open>rock\<close> counting in the denominator.
\<close>

theorem predict_from_metadata_votes_over_all_tags_witness:
  "combined_genres (result_with_tags [''house'', ''House'', ''rock''] True)
     = Some (map JStr [''house'', ''House'', ''rock''])
   \<and> [''house'', ''House'', ''rock''] \<noteq> []
   \<and> predict_from_metadata (new_track ''t'' ''Song'' ''Artist'')
       (result_with_tags [''house'', ''House'', ''rock''] True) = Inr (HOUSE, 8 / 15)"
proof -
  have h1: "combined_genres (result_with_tags [''house'', ''House'', ''rock''] True)
              = Some (map JStr [''house'', ''House'', ''rock''])"
    by (simp add: result_with_tags_def)
  have h2: "[''house'', ''House'', ''rock''] \<noteq> []" by simp
  from predict_from_metadata_votes_over_all_tags[OF h1 h2, of "new_track ''t'' ''Song'' ''Artist''"]
  have "predict_from_metadata (new_track ''t'' ''Song'' ''Artist'')
       (result_with_tags [''house'', ''House'', ''rock''] True) = Inr (HOUSE, 8 / 15)"
    by (auto simp: lower_def lower_char_def genre_mapping_get_def genre_mapping_def
        result_with_tags_def)
  with h1 h2 show ?thesis by blast
qed

text \<open>
  Claim C1, as the specification words it, fails.  With the tags \<^verbatim>\<open>rock\<close>, \<^verbatim>\<open>Rock\<close>,
  \<^verbatim>\<open>house\<close> the unmapped \<^verbatim>\<open>rock\<close> wins the vote (\<open>UNKNOWN\<close> with confidence 2/3),
  where a vote over the mapped tags alone gives \<open>HOUSE\<close> with confidence 1; and with
  the tags \<^verbatim>\<open>house\<close>, \<^verbatim>\<open>rock\<close> the unmapped tag counts in the denominator (1/2).
\<close>

theorem unmapped_tag_wins_vote_counterexample:
  "\<not> mapped_tag ''rock'' \<and> \<not> mapped_tag ''Rock'' \<and> mapped_tag ''house''
   \<and> predict_from_metadata (new_track ''t'' ''Song'' ''Artist'')
       (result_with_tags [''rock'', ''Rock'', ''house''] False) = Inr (UNKNOWN, 2 / 3)
   \<and> predict_from_metadata (new_track ''t'' ''Song'' ''Artist'')
       (result_with_tags (filter mapped_tag [''rock'', ''Rock'', ''house'']) False)
       = Inr (HOUSE, 1)
   \<and> predict_from_metadata (new_track ''t'' ''Song'' ''Artist'')
       (result_with_tags [''house'', ''rock''] False) = Inr (HOUSE, 1 / 2)"
  by (simp add: predict_from_metadata_def result_with_tags_def new_research_result_def
      mapped_tag_def lower_def lower_char_def genre_mapping_get_def genre_mapping_def)

lemma combine_genres_permutes:
  "combine_genres rank l m = Inr gs
   \<Longrightarrow> \<exists>ps. pooled_genres l m = Inr ps \<and> gs = list_of_set rank ps
          \<and> set gs = set ps \<and> length gs = length ps"
  by (cases "pooled_genres l m") (auto simp: combine_genres_def list_of_set_def)

text \<open>
  Claim C4, as the code has it.  The list handed to the vote is \<^verbatim>\<open>list(genres)\<close>: the
  pooled set in the set's iteration order, a rearrangement of the pooling order.  In the
  vote over the strings \<open>ss\<close> of that list, the winner is the first tag of the list
  whose count is largest: every tag has at most its count, and every tag before it has
  a strictly smaller one.  The result is a function of that list.
\<close>

theorem vote_tie_goes_to_first_in_returned_list:
  "(\<forall>gs. combine_genres rank l m = Inr gs \<longrightarrow>
        (\<exists>ps. pooled_genres l m = Inr ps \<and> gs = list_of_set rank ps
              \<and> set gs = set ps \<and> length gs = length ps))
   \<and> (combined_genres r = Some (map JStr ss) \<and> ss \<noteq> [] \<longrightarrow>
        (\<exists>i < length ss.
           (\<forall>k \<in> set (map lower ss).
              count_list (map lower ss) k \<le> count_list (map lower ss) (lower (ss ! i)))
           \<and> (\<forall>j < i. count_list (map lower ss) (lower (ss ! j))
                       < count_list (map lower ss) (lower (ss ! i)))
           \<and> predict_from_metadata t r =
               Inr (genre_mapping_get (lower (ss ! i)),
                    real (count_list (map lower ss) (lower (ss ! i))) / real (length ss)
                    * (if is_remix r \<and> genre_mapping_get (lower (ss ! i)) \<noteq> UNKNOWN
                       then 8 / 10 else 1))))"
  using combine_genres_permutes[of rank l m] predict_from_metadata_vote[of r ss t]
  by blast

lemma two_tag_pool:
  "pooled_genres (Some two_tag_payload) None = Inr [JStr ''house'', JStr ''techno'']"
  by (simp add: pooled_genres_def two_tag_payload_def tag_field_def tag_list_def
      add_tags_def add_tag_def dict_get_def py_eq_def)

lemma two_tag_combine:
  "combine_genres techno_first (Some two_tag_payload) None = Inr [JStr ''techno'', JStr ''house'']"
  by (simp add: combine_genres_def two_tag_pool list_of_set_def techno_first_def)

text \<open>
  The theorem at the two-tag answer under a set order that yields \<^verbatim>\<open>techno\<close> before
  \<^verbatim>\<open>house\<close>: both tags have one vote, and \<^verbatim>\<open>techno\<close>, first in the list, wins.
\<close>

theorem vote_tie_goes_to_first_in_returned_list_witness:
  "combine_genres techno_first (Some two_tag_payload) None = Inr [JStr ''techno'', JStr ''house'']
   \<and> pooled_genres (Some two_tag_payload) None = Inr [JStr ''house'', JStr ''techno'']
   \<and> combined_genres (result_with_tags [''techno'', ''house''] False)
       = Some (map JStr [''techno'', ''house''])
   \<and> [''techno'', ''house''] \<noteq> []
   \<and> predict_from_metadata (new_track ''t'' ''Song'' ''Artist'')
       (result_with_tags [''techno'', ''house''] False) = Inr (TECHNO, 1 / 2)"
proof -
  have h1: "combined_genres (result_with_tags [''techno'', ''house''] False)
              = Some (map JStr [''techno'', ''house''])"
    by (simp add: result_with_tags_def)
  have h2: "[''techno'', ''house''] \<noteq> []" by simp
  note inst = vote_tie_goes_to_first_in_returned_list[of techno_first "Some two_tag_payload" None
      "result_with_tags [''techno'', ''house''] False" "[''techno'', ''house'']"
      "new_track ''t'' ''Song'' ''Artist''"]
  from inst h1 h2 obtain i where i: "i < length [''techno'', ''house'']"
    "\<forall>j < i. count_list (map lower [''techno'', ''house'']) (lower ([''techno'', ''house''] ! j))
                       < count_list (map lower [''techno'', ''house'']) (lower ([''techno'', ''house''] ! i))"
    "predict_from_metadata (new_track ''t'' ''Song'' ''Artist'')
       (result_with_tags [''techno'', ''house''] False) =
               Inr (genre_mapping_get (lower ([''techno'', ''house''] ! i)),
                    real (count_list (map lower [''techno'', ''house'']) (lower ([''techno'', ''house''] ! i))) / real (length [''techno'', ''house''])
                    * (if is_remix (result_with_tags [''techno'', ''house''] False) \<and> genre_mapping_get (lower ([''techno'', ''house''] ! i)) \<noteq> UNKNOWN
                       then 8 / 10 else 1))"
    by blast
  have "i = 0"
  proof (rule ccontr)
    assume "i \<noteq> 0"
    with i(1) have "0 < i" "i = 1" by simp_all
    from i(2)[rule_format, OF this(1)] this(2) show False
      by (simp add: lower_def lower_char_def)
  qed
  with i(3) have "predict_from_metadata (new_track ''t'' ''Song'' ''Artist'')
       (result_with_tags [''techno'', ''house''] False) = Inr (TECHNO, 1 / 2)"
    by (simp add: lower_def lower_char_def genre_mapping_get_def genre_mapping_def
        result_with_tags_def)
  with h1 h2 two_tag_combine two_tag_pool show ?thesis by blast
qed

text \<open>
  Claim C4, as the specification words it, fails.  For one and the same Last.fm answer,
  whose pooling order is \<^verbatim>\<open>house\<close> then \<^verbatim>\<open>techno\<close>, the fused result is \<open>HOUSE\<close>
  under one iteration order of the tag set and \<open>TECHNO\<close> under another: the tie is not
  broken by the pooling order, and the result is not a function of the payloads alone.
\<close>

theorem set_order_decides_tie_counterexample:
  "pooled_genres (Some two_tag_payload) None = Inr [JStr ''house'', JStr ''techno'']
   \<and> fused (fst (process_single_track
        (quiet_env\<lparr>search_lastfm := (\<lambda>t. Some two_tag_payload)\<rparr>)
        default_config (new_track ''t'' ''Song'' ''Artist'') [] True empty_world))
      = Some (HOUSE, 1 / 2)
   \<and> fused (fst (process_single_track
        (quiet_env\<lparr>search_lastfm := (\<lambda>t. Some two_tag_payload), set_rank := techno_first\<rparr>)
        default_config (new_track ''t'' ''Song'' ''Artist'') [] True empty_world))
      = Some (TECHNO, 1 / 2)"
  by (simp add: two_tag_pool fused_def process_single_track_def skip_check_def new_track_def
      research_track_def quiet_env_def detect_remix_def remix_keywords_def keyword_hit_def
      lower_def lower_char_def two_tag_payload_def dict_get_def combine_genres_def
      two_tag_pool[unfolded two_tag_payload_def] list_of_set_def techno_first_def
      new_research_result_def calculate_confidence_def dict_get_none_def
      analyze_track_def audio_attempt_def predict_from_metadata_def
      genre_mapping_get_def genre_mapping_def extract_metadata_features_def num_or_0_def
      default_config_def new_track_result_def call_def empty_world_def Let_def)


subsection \<open>Malformed provider answers\<close>

text \<open>
  Claim C2 does not hold of the code.  For a track named \<^verbatim>\<open>Song\<close> by \<^verbatim>\<open>Artist\<close> and a
  Last.fm answer whose \<^verbatim>\<open>artist\<close> field is the string \<^verbatim>\<open>"Artist"\<close>,
  \<^verbatim>\<open>_detect_remix\<close> calls \<^verbatim>\<open>get\<close> on that string; the \<^verbatim>\<open>AttributeError\<close> leaves
  \<^verbatim>\<open>research_track\<close>, which has no handler, and is caught only by the caller, which
  records the track as failed.  Likewise for an answer whose \<^verbatim>\<open>toptags\<close> field is a
  blank string: the remix scan passes, and \<^verbatim>\<open>_combine_genres\<close> calls \<^verbatim>\<open>get\<close> on the
  string.
\<close>

theorem research_track_raises_on_string_artist:
  "fst (research_track (quiet_env\<lparr>search_lastfm := (\<lambda>t. Some artist_string_payload)\<rparr>)
          (new_track ''t'' ''Song'' ''Artist'') empty_world) = Inl AttributeError
   \<and> detect_remix (new_track ''t'' ''Song'' ''Artist'') (Some artist_string_payload) None
       = Inl AttributeError
   \<and> r_error (fst (process_single_track
         (quiet_env\<lparr>search_lastfm := (\<lambda>t. Some artist_string_payload)\<rparr>) default_config
         (new_track ''t'' ''Song'' ''Artist'') [] True empty_world))
       = Some (Raised AttributeError)
   \<and> detect_remix (new_track ''t'' ''Song'' ''Artist'') (Some blank_toptags_payload) None
       = Inr False
   \<and> combine_genres (\<lambda>v. 0) (Some blank_toptags_payload) None = Inl AttributeError
   \<and> fst (research_track (quiet_env\<lparr>search_lastfm := (\<lambda>t. Some blank_toptags_payload)\<rparr>)
          (new_track ''t'' ''Song'' ''Artist'') empty_world) = Inl AttributeError"
  by (simp add: research_track_def quiet_env_def new_track_def detect_remix_def
      remix_keywords_def keyword_hit_def lower_def lower_char_def artist_string_payload_def
      blank_toptags_payload_def dict_get_def combine_genres_def pooled_genres_def
      tag_field_def process_single_track_def skip_check_def new_track_result_def Let_def)

subsection \<open>Analysis method and remix penalty\<close>

lemma ebind_eq_Inr: "ebind m f = Inr y \<longleftrightarrow> (\<exists>x. m = Inr x \<and> f x = Inr y)"
  by (cases m) auto

lemma predict_from_metadata_penalty:
  assumes "predict_from_metadata t r = Inr (g, c)" and "g \<noteq> UNKNOWN" and "is_remix r"
  shows "\<exists>c0. predict_from_metadata t (r\<lparr>is_remix := False\<rparr>) = Inr (g, c0) \<and> c = c0 * (8 / 10)"
proof -
  obtain gs where gs: "combined_genres r = Some gs" "gs \<noteq> []"
    using assms(1,2)
    by (cases "combined_genres r") (auto simp: predict_from_metadata_def split: if_splits)
  obtain cs where cs: "count_genres gs [] = Inr cs"
    using assms(1) gs by (cases "count_genres gs []") (auto simp: predict_from_metadata_def)
  obtain x xs where x: "cs = x # xs"
    using assms(1,2) gs cs by (cases cs) (auto simp: predict_from_metadata_def)
  from assms gs cs x show ?thesis
    by (auto simp: predict_from_metadata_def Let_def split: if_splits)
qed

lemma audio_attempt_method:
  "audio_attempt e t w = ((g, c, m, fs), w')
   \<Longrightarrow> (m = ''audio_analysis''
        \<and> (\<exists>p. file_path t = Some p \<and> p \<noteq> [] \<and> path_exists e p \<and> is_trained e
               \<and> extract_audio_features e p \<noteq> []
               \<and> (g, c) = predict_from_audio e (extract_audio_features e p)))
       \<or> (m = ''metadata_only'' \<and> g = UNKNOWN \<and> c = 0)"
  by (auto simp: audio_attempt_def Let_def split: option.splits if_splits prod.splits)

lemma analyze_track_Inr:
  assumes "analyze_track e t r w = (Inr an, w')"
    and "audio_attempt e t w = ((g, c, m, fs), w1)"
  shows "if g = UNKNOWN \<or> c < 7 / 10
         then analysis_method an = ''metadata_analysis''
              \<and> predict_from_metadata t r = Inr (predicted_genre an, ga_confidence an)
         else analysis_method an = m \<and> predicted_genre an = g \<and> ga_confidence an = c"
  using assms
  by (auto simp: analyze_track_def ebind_eq_Inr split: if_splits)

lemma analyze_track_cases:
  assumes "analyze_track e t r w = (Inr an, w')"
  shows "(analysis_method an = ''metadata_analysis''
           \<and> predict_from_metadata t r = Inr (predicted_genre an, ga_confidence an)
           \<and> (fst (fst (audio_attempt e t w)) = UNKNOWN
               \<or> fst (snd (fst (audio_attempt e t w))) < 7 / 10))
         \<or> (analysis_method an = ''audio_analysis''
             \<and> predicted_genre an \<noteq> UNKNOWN \<and> 7 / 10 \<le> ga_confidence an
             \<and> (\<exists>p. file_path t = Some p \<and> p \<noteq> [] \<and> path_exists e p \<and> is_trained e
                    \<and> extract_audio_features e p \<noteq> []
                    \<and> (predicted_genre an, ga_confidence an)
                        = predict_from_audio e (extract_audio_features e p)))"
proof -
  obtain g c m fs w1 where aa: "audio_attempt e t w = ((g, c, m, fs), w1)"
    by (metis prod.exhaust)
  note an = analyze_track_Inr[OF assms aa]
  show ?thesis
  proof (cases "g = UNKNOWN \<or> c < 7 / 10")
    case True
    with an aa show ?thesis by auto
  next
    case False
    with audio_attempt_method[OF aa] have
      m: "m = ''audio_analysis''"
      and p: "\<exists>p. file_path t = Some p \<and> p \<noteq> [] \<and> path_exists e p \<and> is_trained e
               \<and> extract_audio_features e p \<noteq> []
               \<and> (g, c) = predict_from_audio e (extract_audio_features e p)"
      by auto
    from an False m have "analysis_method an = ''audio_analysis''"
      "predicted_genre an = g" "ga_confidence an = c"
      by auto
    with False p show ?thesis by auto
  qed
qed

text \<open>
  The audio path never resolves a genre: the predicted label is a string, indexing
  \<^verbatim>\<open>classes_\<close> with it raises, and the handler returns \<^verbatim>\<open>(Genre.UNKNOWN, 0.0)\<close>.
\<close>

lemma predict_from_audio_unresolved: "predict_from_audio e fs = (UNKNOWN, 0)"
  by (simp add: predict_from_audio_def np_getitem_def Let_def split: option.splits prod.splits)

lemma audio_attempt_confident:
  assumes "file_path t = Some p" "p \<noteq> []" "path_exists e p" "is_trained e"
    and "extract_audio_features e p \<noteq> []"
    and "predict_from_audio e (extract_audio_features e p) = (g, c)"
  shows "fst (audio_attempt e t w) = (g, c, ''audio_analysis'', extract_audio_features e p)"
  using assms by (simp add: audio_attempt_def Let_def)

lemma analyze_track_metadata:
  assumes "analyze_track e t r w = (Inr an, w')"
  shows "analysis_method an = ''metadata_analysis''
         \<and> predict_from_metadata t r = Inr (predicted_genre an, ga_confidence an)"
  using analyze_track_cases[OF assms]
  by (auto simp: predict_from_audio_unresolved)

text \<open>
  Claim C10.  Every analysis that \<^verbatim>\<open>analyze_track\<close> returns has the method
  \<^verbatim>\<open>audio_analysis\<close> or \<^verbatim>\<open>metadata_analysis\<close>, never \<^verbatim>\<open>metadata_only\<close>; and the method
  is \<^verbatim>\<open>audio_analysis\<close> exactly when the track's audio file exists, its feature vector
  is not empty, and the trained classifier's prediction is a genre other than
  \<open>UNKNOWN\<close> with a confidence of at least 0.7, which are then the reported genre and
  confidence.
\<close>

theorem analysis_method_never_metadata_only:
  assumes "analyze_track e t r w = (Inr an, w')"
  shows "analysis_method an \<noteq> ''metadata_only''
         \<and> (analysis_method an = ''audio_analysis'' \<or> analysis_method an = ''metadata_analysis'')
         \<and> (analysis_method an = ''audio_analysis'' \<longleftrightarrow>
              (\<exists>p g c. file_path t = Some p \<and> p \<noteq> [] \<and> path_exists e p \<and> is_trained e
                 \<and> extract_audio_features e p \<noteq> []
                 \<and> predict_from_audio e (extract_audio_features e p) = (g, c)
                 \<and> g \<noteq> UNKNOWN \<and> 7 / 10 \<le> c
                 \<and> predicted_genre an = g
                 \<and> ga_confidence an = c))"
proof -
  let ?rhs = "\<exists>p g c. file_path t = Some p \<and> p \<noteq> [] \<and> path_exists e p \<and> is_trained e
                 \<and> extract_audio_features e p \<noteq> []
                 \<and> predict_from_audio e (extract_audio_features e p) = (g, c)
                 \<and> g \<noteq> UNKNOWN \<and> 7 / 10 \<le> c
                 \<and> predicted_genre an = g
                 \<and> ga_confidence an = c"
  note cases = analyze_track_cases[OF assms]
  have either: "analysis_method an = ''audio_analysis'' \<or> analysis_method an = ''metadata_analysis''"
    using cases by auto
  have fwd: ?rhs if a: "analysis_method an = ''audio_analysis''"
  proof -
    from cases a obtain p where
      p: "predicted_genre an \<noteq> UNKNOWN" "7 / 10 \<le> ga_confidence an"
         "file_path t = Some p" "p \<noteq> []" "path_exists e p" "is_trained e"
         "extract_audio_features e p \<noteq> []"
         "predict_from_audio e (extract_audio_features e p) = (predicted_genre an, ga_confidence an)"
      by auto
    then show ?thesis by blast
  qed
  have bwd: "analysis_method an = ''audio_analysis''" if ?rhs
  proof -
    from that obtain p g c where
      h: "file_path t = Some p" "p \<noteq> []" "path_exists e p" "is_trained e"
         "extract_audio_features e p \<noteq> []"
         "predict_from_audio e (extract_audio_features e p) = (g, c)"
         "g \<noteq> UNKNOWN" "7 / 10 \<le> c"
      by blast
    from audio_attempt_confident[OF h(1-6), of w] cases h(7,8) show ?thesis
      by auto
  qed
  from either fwd bwd show ?thesis
    by auto
qed

text \<open>
  The theorem's hypothesis at a track without audio file and a research result without
  metadata: the analysis is returned with the method \<^verbatim>\<open>metadata_analysis\<close>.  So it is
  for a track with an audio file and a trained classifier, whose prediction the fuser
  cannot turn into a genre.
\<close>

theorem analysis_method_never_metadata_only_witness:
  "outcome (analyze_track quiet_env (new_track ''t'' ''Song'' ''Artist'')
              (new_research_result ''t'') empty_world)
     = Some (UNKNOWN, 0, False, ''metadata_analysis'')
   \<and> outcome (analyze_track audio_env audio_track (result_with_tags [] False) empty_world)
     = Some (UNKNOWN, 0, False, ''metadata_analysis'')"
proof -
  obtain an w' where eq: "analyze_track quiet_env (new_track ''t'' ''Song'' ''Artist'')
              (new_research_result ''t'') empty_world = (Inr an, w')"
    by (simp add: analyze_track_def audio_attempt_def new_track_def predict_from_metadata_def
        new_research_result_def extract_metadata_features_def)
  have q: "outcome (analyze_track quiet_env (new_track ''t'' ''Song'' ''Artist'')
              (new_research_result ''t'') empty_world)
     = Some (UNKNOWN, 0, False, ''metadata_analysis'')"
    by (simp add: outcome_def analyze_track_def audio_attempt_def new_track_def
        predict_from_metadata_def new_research_result_def extract_metadata_features_def)
  have a: "outcome (analyze_track audio_env audio_track (result_with_tags [] False) empty_world)
     = Some (UNKNOWN, 0, False, ''metadata_analysis'')"
    by (simp add: outcome_def analyze_track_def audio_attempt_def audio_track_def audio_env_def
        quiet_env_def new_track_def predict_from_audio_unresolved result_with_tags_def
        predict_from_metadata_def new_research_result_def extract_metadata_features_def)
  from analysis_method_never_metadata_only[OF eq] q a show ?thesis
    by simp
qed

text \<open>
  Claim C3.  When \<^verbatim>\<open>analyze_track\<close> returns a genre other than \<open>UNKNOWN\<close> for a
  research result flagged as a remix, the returned confidence is 0.8 times the
  pre-penalty confidence, which is the confidence the same vote yields without the remix
  flag.  This covers every path that resolves a genre: the audio-classifier path resolves
  none (its prediction is always \<open>UNKNOWN\<close> with confidence 0), so the genre comes from
  the metadata vote, where the penalty is applied.
\<close>

theorem remix_penalty_on_resolved_genre:
  assumes "analyze_track e t r w = (Inr an, w')"
    and "predicted_genre an \<noteq> UNKNOWN" and "is_remix r"
  shows "(\<exists>c0. predict_from_metadata t (r\<lparr>is_remix := False\<rparr>) = Inr (predicted_genre an, c0)
               \<and> ga_confidence an = c0 * (8 / 10))
         \<and> analysis_method an = ''metadata_analysis''
         \<and> (\<forall>fs. predict_from_audio e fs = (UNKNOWN, 0))"
proof -
  from analyze_track_metadata[OF assms(1)] have
    m: "analysis_method an = ''metadata_analysis''"
    and p: "predict_from_metadata t r = Inr (predicted_genre an, ga_confidence an)"
    by simp_all
  from predict_from_metadata_penalty[OF p assms(2,3)] m predict_from_audio_unresolved
  show ?thesis
    by blast
qed

text \<open>
  The theorem at a remix with the tags \<^verbatim>\<open>house\<close>, \<^verbatim>\<open>House\<close>, \<^verbatim>\<open>rock\<close>: the vote share
  2/3 becomes 8/15, without an audio file and also with an audio file and a trained
  classifier.
\<close>

theorem remix_penalty_on_resolved_genre_witness:
  "is_remix (result_with_tags [''house'', ''House'', ''rock''] True)
   \<and> outcome (analyze_track quiet_env (new_track ''t'' ''Song'' ''Artist'')
              (result_with_tags [''house'', ''House'', ''rock''] True) empty_world)
     = Some (HOUSE, 8 / 15, True, ''metadata_analysis'')
   \<and> outcome (analyze_track audio_env audio_track
              (result_with_tags [''house'', ''House'', ''rock''] True) empty_world)
     = Some (HOUSE, 8 / 15, True, ''metadata_analysis'')
   \<and> predict_from_metadata (new_track ''t'' ''Song'' ''Artist'')
       ((result_with_tags [''house'', ''House'', ''rock''] True)\<lparr>is_remix := False\<rparr>)
     = Inr (HOUSE, 2 / 3)
   \<and> (8 / 15 :: real) = 2 / 3 * (8 / 10)"
proof -
  let ?T = "new_track ''t'' ''Song'' ''Artist''"
  let ?R = "result_with_tags [''house'', ''House'', ''rock''] True"
  have o: "outcome (analyze_track quiet_env ?T ?R empty_world)
     = Some (HOUSE, 8 / 15, True, ''metadata_analysis'')"
    by (simp add: outcome_def analyze_track_def audio_attempt_def new_track_def
        predict_from_metadata_def result_with_tags_def new_research_result_def
        extract_metadata_features_def genre_mapping_get_def genre_mapping_def
        lower_def lower_char_def)
  have oa: "outcome (analyze_track audio_env audio_track ?R empty_world)
     = Some (HOUSE, 8 / 15, True, ''metadata_analysis'')"
    by (simp add: outcome_def analyze_track_def audio_attempt_def audio_track_def audio_env_def
        quiet_env_def new_track_def predict_from_audio_unresolved
        predict_from_metadata_def result_with_tags_def new_research_result_def
        extract_metadata_features_def genre_mapping_get_def genre_mapping_def
        lower_def lower_char_def)
  from o obtain an w' where eq: "analyze_track quiet_env ?T ?R empty_world = (Inr an, w')"
    by (cases "analyze_track quiet_env ?T ?R empty_world"; cases "fst (analyze_track quiet_env ?T ?R empty_world)")
       (auto simp: outcome_def)
  with o have g: "predicted_genre an \<noteq> UNKNOWN"
    by (simp add: outcome_def)
  have r: "is_remix ?R"
    by (simp add: result_with_tags_def)
  have p: "predict_from_metadata ?T (?R\<lparr>is_remix := False\<rparr>) = Inr (HOUSE, 2 / 3)"
    by (simp add: predict_from_metadata_def result_with_tags_def new_research_result_def
        genre_mapping_get_def genre_mapping_def lower_def lower_char_def)
  from remix_penalty_on_resolved_genre[OF eq g r] o oa r p show ?thesis
    by simp
qed


section \<open>Properties of the batch orchestrator\<close>

subsection \<open>Skip before work\<close>

text \<open>
  Claim C8.  For a track whose \<^verbatim>\<open>current_genre\<close> is set (a non-empty string) and whose
  recorded \<^verbatim>\<open>confidence_score\<close> exceeds 0.8, \<^verbatim>\<open>_process_single_track\<close> returns the
  fresh result marked skipped and successful, and the world is the one it started from:
  no provider lookup, no file or audio access, no library-store call, no mutation.
\<close>

theorem skip_before_any_work:
  assumes "current_genre track = Some g" and "g \<noteq> []"
    and "confidence_score track = Some c" and "8 / 10 < c"
  shows "process_single_track e cfg track playlists dry_run w
           = ((new_track_result track)\<lparr>skipped := True, success := True\<rparr>, w)
         \<and> skipped (fst (process_single_track e cfg track playlists dry_run w))
         \<and> success (fst (process_single_track e cfg track playlists dry_run w))
         \<and> calls (snd (process_single_track e cfg track playlists dry_run w)) = calls w
         \<and> store_genre (snd (process_single_track e cfg track playlists dry_run w)) = store_genre w
         \<and> store_members (snd (process_single_track e cfg track playlists dry_run w))
             = store_members w"
  using assms by (simp add: process_single_track_def skip_check_def)

text \<open>
  The theorem at a track with genre \<^verbatim>\<open>House\<close> and confidence 0.9, in an environment
  whose providers would answer.  Without the recorded confidence the same track causes
  both provider lookups.
\<close>

theorem skip_before_any_work_witness:
  "current_genre settled_track = Some ''House'' \<and> ''House'' \<noteq> []
   \<and> confidence_score settled_track = Some (9 / 10) \<and> (8 / 10 :: real) < 9 / 10
   \<and> skipped (fst (process_single_track strobe_env default_config settled_track [] False
         empty_world))
   \<and> calls (snd (process_single_track strobe_env default_config settled_track [] False
         empty_world)) = []
   \<and> calls (snd (process_single_track strobe_env default_config
         (settled_track\<lparr>confidence_score := None\<rparr>) [] True empty_world))
       = [LastfmLookup ''s'', MusicBrainzLookup ''s'']"
proof -
  have h1: "current_genre settled_track = Some ''House''"
    and h3: "confidence_score settled_track = Some (9 / 10)"
    by (simp_all add: settled_track_def)
  have h2: "''House'' \<noteq> []" and h4: "(8 / 10 :: real) < 9 / 10"
    by simp_all
  have other: "calls (snd (process_single_track strobe_env default_config
         (settled_track\<lparr>confidence_score := None\<rparr>) [] True empty_world))
       = [LastfmLookup ''s'', MusicBrainzLookup ''s'']"
    by (simp add: process_single_track_def skip_check_def settled_track_def new_track_def
        research_track_def strobe_env_def quiet_env_def call_def empty_world_def
        analyze_track_def audio_attempt_def Let_def split_beta
        split: sum.splits)
  from skip_before_any_work[OF h1 h2 h3 h4, of strobe_env default_config "[]" False empty_world]
    h1 h2 h3 h4 other
  show ?thesis
    by (simp add: empty_world_def)
qed

subsection \<open>Batches and delays\<close>


















lemma batch_loop_negative_delay:
  assumes "0 < bs" and "i + bs < length tracks" and "retry_delay cfg < 0"
  shows "batch_loop e cfg tracks playlists dry_run bs i results w =
           (Inl ValueError,
            snd (process_batch e cfg (take bs (drop i tracks)) playlists dry_run w))"
  using assms by (subst batch_loop.simps) (simp add: Let_def)


text \<open>
  With a negative delay the run ends in the \<^verbatim>\<open>ValueError\<close> of the first
  \<^verbatim>\<open>time.sleep\<close>, after the first batch.
\<close>

lemma negative_delay_raises:
  assumes "length tracks = 120" and "batch_size cfg = 50" and "retry_delay cfg < 0"
  shows "process_tracks_batch e cfg tracks playlists dry_run w =
           (Inl ValueError, snd (process_batch e cfg (take 50 tracks) playlists dry_run w))"
proof -
  have n: "nat (batch_size cfg) = 50"
    using assms(2) by simp
  have nz: "batch_size cfg \<noteq> 0" "\<not> batch_size cfg < 0"
    using assms(2) by simp_all
  have "batch_loop e cfg tracks playlists dry_run 50 0 empty_results w =
          (Inl ValueError, snd (process_batch e cfg (take 50 tracks) playlists dry_run w))"
    using assms(1,3) by (subst batch_loop_negative_delay) simp_all
  then show ?thesis
    unfolding process_tracks_batch_def n using nz by (simp only: if_False)
qed




section \<open>The end-to-end scenario\<close>

lemma set_fold_insert:
  "set (fold (\<lambda>x s. if x \<in> set s then s else s @ [x]) xs acc) = set acc \<union> set xs"
  by (induction xs arbitrary: acc) auto

lemma set_set_of_list: "set (set_of_list xs) = set xs"
  by (simp add: set_of_list_def set_fold_insert)

lemma set_match_track_to_playlists:
  "set (match_track_to_playlists rank t an pls) =
     set (find_direct_genre_matches (predicted_genre an) pls)
     \<union> set (find_similar_genre_matches (predicted_genre an) pls)
     \<union> (if ga_is_remix an then set (find_remix_specific_matches t an pls) else {})"
  by (auto simp: match_track_to_playlists_def list_of_set_def set_set_of_list Let_def)

lemma direct_match_member:
  assumes "p \<in> set pls"
    and "normalize_genre_name (genre p) = normalize_genre_name (genre_value g)
         \<or> contains (normalize_genre_name (genre_value g)) (lower (name p))"
  shows "playlist_id p \<in> set (find_direct_genre_matches g pls)"
  using assms by (induction pls) (auto simp: Let_def)

lemma remix_keyword_scan_iff:
  "remix_keyword_scan ks p g \<longleftrightarrow>
     (\<exists>k \<in> set ks. contains k (lower (name p)))
     \<and> (normalize_genre_name (genre p) = normalize_genre_name (genre_value g)
        \<or> contains (normalize_genre_name (genre_value g)) (lower (name p)))"
  by (induction ks) (auto simp: Let_def)

lemma remix_match_member:
  assumes "p \<in> set pls"
    and "\<exists>k \<in> set playlist_remix_keywords. contains k (lower (name p))"
    and "normalize_genre_name (genre p) = normalize_genre_name (genre_value (predicted_genre an))
         \<or> contains (normalize_genre_name (genre_value (predicted_genre an))) (lower (name p))"
  shows "playlist_id p \<in> set (find_remix_specific_matches t an pls)"
  using assms
  by (auto simp: find_remix_specific_matches_def remix_keyword_scan_iff
      playlist_remix_keywords_def)

lemma strobe_pool:
  "pooled_genres (Some strobe_lastfm) (Some strobe_musicbrainz) = Inr [JStr ''progressive house'']"
  by (simp add: pooled_genres_def strobe_lastfm_def strobe_musicbrainz_def tag_field_def
      tag_list_def add_tags_def add_tag_def dict_get_def py_eq_def)

lemma strobe_detect_remix: "detect_remix strobe_track l m = Inr True"
  by (simp add: detect_remix_def strobe_track_def new_track_def remix_keywords_def
      lower_def lower_char_def)

lemma strobe_confidence:
  "calculate_confidence
     \<lparr> rr_track_id = ''strobe'', spotify_data = None, lastfm_data = Some strobe_lastfm,
       musicbrainz_data = Some strobe_musicbrainz,
       combined_genres = Some [JStr ''progressive house''], is_remix = True,
       confidence = 0 \<rparr> = 9 / 10"
  by (simp add: calculate_confidence_def strobe_lastfm_def strobe_musicbrainz_def
      dict_get_none_def dict_get_def)

lemma strobe_research_track:
  assumes "search_lastfm e strobe_track = Some strobe_lastfm"
    and "search_musicbrainz e strobe_track = Some strobe_musicbrainz"
  shows "research_track e strobe_track w =
           (Inr strobe_research,
            call (MusicBrainzLookup ''strobe'') (call (LastfmLookup ''strobe'') w))"
proof -
  have ne: "strobe_lastfm \<noteq> []" "strobe_musicbrainz \<noteq> []"
    by (simp_all add: strobe_lastfm_def strobe_musicbrainz_def)
  have id: "track_id strobe_track = ''strobe''"
    by (simp add: strobe_track_def new_track_def)
  show ?thesis
    by (simp add: research_track_def assms ne id strobe_detect_remix combine_genres_def
        strobe_pool list_of_set_def new_research_result_def strobe_confidence
        strobe_research_def Let_def)
qed

lemma strobe_analyze_track:
  "analyze_track e strobe_track strobe_research w = (Inr strobe_analysis, w)"
  by (simp add: analyze_track_def audio_attempt_def strobe_track_def new_track_def
      predict_from_metadata_def strobe_research_def lower_def lower_char_def
      genre_mapping_get_def genre_mapping_def extract_metadata_features_def num_or_0_def
      strobe_analysis_def)

lemma strobe_process:
  assumes "search_lastfm e strobe_track = Some strobe_lastfm"
    and "search_musicbrainz e strobe_track = Some strobe_musicbrainz"
    and "confidence_threshold cfg \<le> 4 / 5"
    and "dry_run \<or> request_ok e (UpdateTrackGenre ''strobe'' ''Progressive'')"
  shows "analysis (fst (process_single_track e cfg strobe_track pls dry_run w))
           = Some strobe_analysis
         \<and> success (fst (process_single_track e cfg strobe_track pls dry_run w))
         \<and> \<not> skipped (fst (process_single_track e cfg strobe_track pls dry_run w))
         \<and> matched_playlists (fst (process_single_track e cfg strobe_track pls dry_run w))
             = Some (match_track_to_playlists (set_rank e) strobe_track strobe_analysis pls)"
proof -
  have sk: "\<not> skip_check strobe_track"
    by (simp add: skip_check_def strobe_track_def new_track_def)
  have an: "ga_confidence strobe_analysis = 4 / 5" "predicted_genre strobe_analysis = PROGRESSIVE"
    by (simp_all add: strobe_analysis_def)
  have tr: "track_id strobe_track = ''strobe''" "current_genre strobe_track = None"
    by (simp_all add: strobe_track_def new_track_def)
  from assms(3) have th: "\<not> 4 / 5 < confidence_threshold cfg"
    "\<not> 4 < confidence_threshold cfg * 5"
    by simp_all
  show ?thesis
  proof (cases dry_run)
    case True
    then show ?thesis
      by (simp add: process_single_track_def sk strobe_research_track[OF assms(1,2)]
          strobe_analyze_track an tr th new_track_result_def Let_def split_beta)
  next
    case False
    with assms(4) have ok: "request_ok e (UpdateTrackGenre ''strobe'' ''Progressive'')"
      by simp
    from False show ?thesis
      by (simp add: process_single_track_def sk strobe_research_track[OF assms(1,2)]
          strobe_analyze_track an tr th new_track_result_def update_track_genre_def ok
          Let_def split_beta)
  qed
qed

text \<open>
  Claim C5, as the code has it.  For the track \<^verbatim>\<open>Strobe (Extended Mix)\<close> by
  \<^verbatim>\<open>Deadmau5\<close> without genre and audio file, with both providers answering with the
  single tag \<^verbatim>\<open>progressive house\<close>, an acceptance threshold of at most 0.8 and a dry run
  or an accepted genre update: the track is a remix, the predicted genre is
  \<open>PROGRESSIVE\<close> (\<^verbatim>\<open>Progressive\<close>), the confidence is the vote share 1 times the remix
  factor 0.8, that is 0.8; every playlist named \<^verbatim>\<open>Progressive House\<close> or whose genre
  normalises to \<^verbatim>\<open>progressive\<close> is matched; and every playlist with a remix keyword in
  its name and a genre that normalises to \<^verbatim>\<open>progressive\<close> is matched by the remix pass
  as well.
\<close>

theorem strobe_end_to_end:
  assumes "search_lastfm e strobe_track = Some strobe_lastfm"
    and "search_musicbrainz e strobe_track = Some strobe_musicbrainz"
    and "confidence_threshold cfg \<le> 4 / 5"
    and "dry_run \<or> request_ok e (UpdateTrackGenre ''strobe'' ''Progressive'')"
  shows "\<exists>an ms.
           analysis (fst (process_single_track e cfg strobe_track playlists dry_run w)) = Some an
           \<and> matched_playlists (fst (process_single_track e cfg strobe_track playlists dry_run w))
               = Some ms
           \<and> success (fst (process_single_track e cfg strobe_track playlists dry_run w))
           \<and> ga_is_remix an
           \<and> predicted_genre an = PROGRESSIVE
           \<and> genre_value (predicted_genre an) = ''Progressive''
           \<and> ga_confidence an = 1 * (8 / 10)
           \<and> (\<forall>p \<in> set playlists.
                 lower (name p) = ''progressive house''
                 \<or> normalize_genre_name (genre p) = ''progressive''
                 \<longrightarrow> playlist_id p \<in> set ms)
           \<and> (\<forall>p \<in> set playlists.
                 (\<exists>k \<in> set playlist_remix_keywords. contains k (lower (name p)))
                 \<and> normalize_genre_name (genre p) = ''progressive''
                 \<longrightarrow> playlist_id p \<in> set (find_remix_specific_matches strobe_track an playlists)
                      \<and> playlist_id p \<in> set ms)"
proof -
  let ?ms = "match_track_to_playlists (set_rank e) strobe_track strobe_analysis playlists"
  note pr = strobe_process[OF assms, of playlists w]
  have an: "ga_is_remix strobe_analysis" "predicted_genre strobe_analysis = PROGRESSIVE"
    "ga_confidence strobe_analysis = 1 * (8 / 10)"
    by (simp_all add: strobe_analysis_def)
  have nm: "normalize_genre_name (genre_value PROGRESSIVE) = ''progressive''"
    by (simp add: normalize_genre_name_def lower_def lower_char_def strip_def is_space_def
        variations_def)
  have direct: "playlist_id p \<in> set ?ms"
    if "p \<in> set playlists"
      and "lower (name p) = ''progressive house''
           \<or> normalize_genre_name (genre p) = ''progressive''" for p
  proof -
    from that(2) have "normalize_genre_name (genre p) = normalize_genre_name (genre_value PROGRESSIVE)
         \<or> contains (normalize_genre_name (genre_value PROGRESSIVE)) (lower (name p))"
      unfolding nm by auto
    from direct_match_member[OF that(1) this] show ?thesis
      by (simp add: set_match_track_to_playlists an)
  qed
  have remix: "playlist_id p \<in> set (find_remix_specific_matches strobe_track strobe_analysis playlists)"
    if "p \<in> set playlists"
      and "\<exists>k \<in> set playlist_remix_keywords. contains k (lower (name p))"
      and "normalize_genre_name (genre p) = ''progressive''" for p
  proof -
    have "normalize_genre_name (genre p)
            = normalize_genre_name (genre_value (predicted_genre strobe_analysis))
          \<or> contains (normalize_genre_name (genre_value (predicted_genre strobe_analysis)))
               (lower (name p))"
      using that(3) nm by (simp add: an)
    from remix_match_member[OF that(1,2) this] show ?thesis .
  qed
  show ?thesis
  proof (intro exI[of _ strobe_analysis] exI[of _ ?ms] conjI)
    show "\<forall>p \<in> set playlists.
                 lower (name p) = ''progressive house''
                 \<or> normalize_genre_name (genre p) = ''progressive''
                 \<longrightarrow> playlist_id p \<in> set ?ms"
      using direct by blast
    show "\<forall>p \<in> set playlists.
                 (\<exists>k \<in> set playlist_remix_keywords. contains k (lower (name p)))
                 \<and> normalize_genre_name (genre p) = ''progressive''
                 \<longrightarrow> playlist_id p \<in> set (find_remix_specific_matches strobe_track strobe_analysis playlists)
                      \<and> playlist_id p \<in> set ?ms"
      using direct remix by blast
  qed (use pr an in simp_all)
qed


text \<open>
  The theorem in the environment of the scenario, with the default configuration and the
  three example playlists: the first and the third are matched and written to.
\<close>

theorem strobe_end_to_end_witness:
  "search_lastfm strobe_env strobe_track = Some strobe_lastfm
   \<and> search_musicbrainz strobe_env strobe_track = Some strobe_musicbrainz
   \<and> confidence_threshold default_config \<le> 4 / 5
   \<and> request_ok strobe_env (UpdateTrackGenre ''strobe'' ''Progressive'')
   \<and> fused (fst (process_single_track strobe_env default_config strobe_track example_playlists
         False empty_world)) = Some (PROGRESSIVE, 4 / 5)
   \<and> matched_playlists (fst (process_single_track strobe_env default_config strobe_track
         example_playlists False empty_world)) = Some [''p1'', ''p3'']
   \<and> playlist_additions (fst (process_single_track strobe_env default_config strobe_track
         example_playlists False empty_world)) = 2"
proof -
  have h1: "search_lastfm strobe_env strobe_track = Some strobe_lastfm"
    and h2: "search_musicbrainz strobe_env strobe_track = Some strobe_musicbrainz"
    and h4: "request_ok strobe_env (UpdateTrackGenre ''strobe'' ''Progressive'')"
    by (simp_all add: strobe_env_def quiet_env_def)
  have h3: "confidence_threshold default_config \<le> 4 / 5"
    by (simp add: default_config_def)
  have m: "match_track_to_playlists (set_rank strobe_env) strobe_track strobe_analysis
             example_playlists = [''p1'', ''p3'']"
    by (simp add: match_track_to_playlists_def strobe_analysis_def example_playlists_def
        normalize_genre_name_def lower_def lower_char_def strip_def is_space_def
        variations_def find_similar_genre_matches_def find_remix_specific_matches_def
        set_of_list_def list_of_set_def strobe_env_def quiet_env_def)
  note pr = strobe_process[OF h1 h2 h3 disjI2[OF h4], where dry_run = False
      and pls = example_playlists and w = empty_world]
  have f: "fused (fst (process_single_track strobe_env default_config strobe_track
         example_playlists False empty_world)) = Some (PROGRESSIVE, 4 / 5)"
    using pr by (simp add: fused_def strobe_analysis_def)
  have mp: "matched_playlists (fst (process_single_track strobe_env default_config strobe_track
         example_playlists False empty_world)) = Some [''p1'', ''p3'']"
    using pr m by simp
  have sk: "\<not> skip_check strobe_track"
    by (simp add: skip_check_def strobe_track_def new_track_def)
  have pa: "playlist_additions (fst (process_single_track strobe_env default_config strobe_track
         example_playlists False empty_world)) = 2"
    by (simp add: process_single_track_def sk strobe_research_track[OF h1 h2]
        strobe_analyze_track m update_track_genre_def h4 default_config_def
        get_playlist_tracks_def add_track_to_playlist_def call_def empty_world_def
        new_track_result_def strobe_env_def[symmetric] Let_def split_beta)
       (simp add: strobe_analysis_def strobe_track_def new_track_def strobe_env_def
        quiet_env_def)
  from strobe_end_to_end[OF h1 h2 h3 disjI2[OF h4], where dry_run = False
      and playlists = example_playlists and w = empty_world]
    h1 h2 h3 h4 f mp pa
  show ?thesis
    by blast
qed

text \<open>
  Claim C5, as the specification words it, fails in its confidence: the scenario yields
  0.8, which is not 0.8 times 0.8; the two differ by 0.16.
\<close>

theorem strobe_confidence_counterexample:
  "fused (fst (process_single_track strobe_env default_config strobe_track [] True empty_world))
     = Some (PROGRESSIVE, 4 / 5)
   \<and> (4 / 5 :: real) \<noteq> 8 / 10 * (8 / 10)
   \<and> (4 / 5 :: real) - 8 / 10 * (8 / 10) = 4 / 25"
proof -
  have h1: "search_lastfm strobe_env strobe_track = Some strobe_lastfm"
    and h2: "search_musicbrainz strobe_env strobe_track = Some strobe_musicbrainz"
    by (simp_all add: strobe_env_def quiet_env_def)
  have h3: "confidence_threshold default_config \<le> 4 / 5"
    by (simp add: default_config_def)
  from strobe_process[OF h1 h2 h3 disjI1[of True], where pls = "[]" and w = empty_world]
  show ?thesis
    by (simp add: fused_def strobe_analysis_def)
qed

end
